theory Spec2Isabelle
  imports Complex_Main "HOL-Library.Sublist" "HOL-Library.AList"
begin

section \<open>Python values, exceptions and the runtime the scripts run on\<close>

text \<open>
  The repository holds three scripts. \<^verbatim>\<open>Support_ticket.py\<close> is the batch program
  (\<^verbatim>\<open>send_prompt\<close>, \<^verbatim>\<open>process_tickets\<close>); \<^verbatim>\<open>Support_ticket_st.py\<close> has the same
  \<^verbatim>\<open>send_prompt\<close> (without the verbose trace) behind a Streamlit page;
  \<^verbatim>\<open>support_ticket.py\<close> is a second batch program built on LangChain.

  The values the scripts handle are what \<^verbatim>\<open>json.loads\<close> and \<^verbatim>\<open>pandas\<close> deliver:
  \<^verbatim>\<open>None\<close>, booleans, integers, floats, strings, lists and dictionaries with string keys.
  A dictionary is an association list read with \<open>map_of\<close> (the first binding of a key is
  its value); its keys, in order and without repetition, are those of \<open>AList.clearjunk\<close>.
  A float is the real number it denotes, or one of the three non-finite values.
  A string is a list of characters.
\<close>

datatype pyfloat = Finite real | PosInf | NegInf | NaN

datatype pyval =
    PNone
  | PBool bool
  | PInt int
  | PFloat pyfloat
  | PStr string
  | PList "pyval list"
  | PDict "(string \<times> pyval) list"

text \<open>
  Exceptions carry their class and the text \<^verbatim>\<open>str(e)\<close> gives. Only classes below
  \<^verbatim>\<open>Exception\<close> are modelled, so \<^verbatim>\<open>except Exception\<close> catches every value of \<open>pyexc\<close>
  (\<^verbatim>\<open>KeyboardInterrupt\<close> and \<^verbatim>\<open>SystemExit\<close> are outside the model).
\<close>

datatype exc_class =
    JSONDecodeError | TypeError | KeyError | IndexError | AttributeError
  | ValueError | NameError | OtherException

datatype pyexc = Exc exc_class string

fun exc_class_of :: "pyexc \<Rightarrow> exc_class" where
  "exc_class_of (Exc c m) = c"

fun str_exc :: "pyexc \<Rightarrow> string" where
  "str_exc (Exc c m) = m"

text \<open>The operations of the interpreter that can fail on a value of the wrong shape.\<close>

datatype pyop = OpContains | OpGetItem | OpLen | OpLoads | OpGetAttr | OpJoin | OpName

text \<open>The arguments of \<^verbatim>\<open>bedrock_inference.invoke_model\<close>.\<close>

record request =
  body :: string
  modelId :: string
  accept :: string
  contentType :: string

text \<open>\<^verbatim>\<open>BedrockLLM(...)\<close> and \<^verbatim>\<open>LLMChain(llm=llm, prompt=prompt)\<close> of the LangChain script.\<close>

record bedrock_llm =
  model_id :: string
  model_kwargs :: "(string \<times> pyval) list"
  region_name :: string
  endpoint_url :: string

record llm_chain =
  llm :: bedrock_llm
  input_variables :: "string list"
  prompt_template :: string

text \<open>A table as \<^verbatim>\<open>pd.read_csv\<close> returns it: the column labels and the rows, cell by cell.\<close>

record dataframe =
  columns :: "string list"
  rows :: "pyval list list"

text \<open>One dictionary of \<^verbatim>\<open>generated_data\<close>: its seven keys are fixed by the source.\<close>

record report_row =
  support_tick_id :: pyval
  category :: pyval
  tags :: pyval
  priority :: pyval
  suggested_eta :: pyval
  generated_reply :: pyval
  sentiment :: pyval

text \<open>
  What a run does to the outside: the requests sent to the endpoint, the lines printed
  and the table handed to \<^verbatim>\<open>to_csv\<close>, in the order they happen.
\<close>

datatype event =
    Invoked request
  | ChainRun llm_chain pyval
  | Printed string
  | Saved string "report_row list"
  | SavedJoined string dataframe "pyval list"

record 'w world =
  events :: "event list"
  remote :: 'w

text \<open>
  The library code under the scripts is a parameter: the JSON codec, \<^verbatim>\<open>str()\<close> of a value
  that is not a string, the text the interpreter puts in its own exceptions, the CSV reader
  and writer, and the two remote calls. \<open>save_joined\<close> stands for the last lines of the
  LangChain script (\<^verbatim>\<open>pd.DataFrame(results)\<close>, \<^verbatim>\<open>pd.concat\<close>, \<^verbatim>\<open>to_csv\<close>). A remote call and the CSV writer see the state \<open>'w\<close>
  of the outside world and may change it; each returns its result or the exception it raises.
  \<open>invoke_model\<close> stands for \<^verbatim>\<open>invoke_model(...)\<close> followed by
  \<^verbatim>\<open>response["body"].read().decode("utf-8")\<close>: it returns the decoded body text.
\<close>

record 'w runtime =
  json_loads :: "string \<Rightarrow> pyexc + pyval"
  json_dumps :: "nat option \<Rightarrow> pyval \<Rightarrow> string"
  py_str :: "pyval \<Rightarrow> string"
  message :: "pyop \<Rightarrow> pyval \<Rightarrow> string"
  read_csv :: "string \<Rightarrow> pyexc + dataframe"
  to_csv :: "string \<Rightarrow> report_row list \<Rightarrow> 'w \<Rightarrow> pyexc option \<times> 'w"
  save_joined :: "string \<Rightarrow> dataframe \<Rightarrow> pyval list \<Rightarrow> 'w \<Rightarrow> pyexc option \<times> 'w"
  invoke_model :: "request \<Rightarrow> 'w \<Rightarrow> (pyexc + string) \<times> 'w"
  chain_run :: "llm_chain \<Rightarrow> pyval \<Rightarrow> 'w \<Rightarrow> (pyexc + string) \<times> 'w"

definition emit :: "event \<Rightarrow> 'w world \<Rightarrow> 'w world" where
  "emit ev w = w\<lparr>events := events w @ [ev]\<rparr>"

definition print :: "string \<Rightarrow> 'w world \<Rightarrow> 'w world" where
  "print s w = emit (Printed s) w"

section \<open>The operations of Python the scripts use\<close>

definition raise_op :: "'w runtime \<Rightarrow> exc_class \<Rightarrow> pyop \<Rightarrow> pyval \<Rightarrow> pyexc + 'a" where
  "raise_op rt c op v = Inl (Exc c (message rt op v))"

text \<open>\<^verbatim>\<open>key in v\<close> for a string \<open>key\<close>.\<close>

fun py_contains :: "'w runtime \<Rightarrow> string \<Rightarrow> pyval \<Rightarrow> pyexc + bool" where
  "py_contains rt k (PDict kvs) = Inr (k \<in> set (map fst kvs))"
| "py_contains rt k (PList xs) = Inr (PStr k \<in> set xs)"
| "py_contains rt k (PStr s) = Inr (sublist k s)"
| "py_contains rt k v = raise_op rt TypeError OpContains v"

text \<open>\<^verbatim>\<open>v[key]\<close> for a string \<open>key\<close>.\<close>

fun py_getitem :: "'w runtime \<Rightarrow> pyval \<Rightarrow> string \<Rightarrow> pyexc + pyval" where
  "py_getitem rt (PDict kvs) k =
     (case map_of kvs k of
        Some x \<Rightarrow> Inr x
      | None \<Rightarrow> raise_op rt KeyError OpGetItem (PStr k))"
| "py_getitem rt v k = raise_op rt TypeError OpGetItem v"

text \<open>\<^verbatim>\<open>v[0]\<close>. No dictionary of the model has the key \<^verbatim>\<open>0\<close>: its keys are strings.\<close>

fun py_getitem0 :: "'w runtime \<Rightarrow> pyval \<Rightarrow> pyexc + pyval" where
  "py_getitem0 rt (PList []) = raise_op rt IndexError OpGetItem (PList [])"
| "py_getitem0 rt (PList (x # xs)) = Inr x"
| "py_getitem0 rt (PStr []) = raise_op rt IndexError OpGetItem (PStr [])"
| "py_getitem0 rt (PStr (c # cs)) = Inr (PStr [c])"
| "py_getitem0 rt (PDict kvs) = raise_op rt KeyError OpGetItem (PInt 0)"
| "py_getitem0 rt v = raise_op rt TypeError OpGetItem v"

text \<open>\<^verbatim>\<open>len(v)\<close>.\<close>

fun py_len :: "'w runtime \<Rightarrow> pyval \<Rightarrow> pyexc + nat" where
  "py_len rt (PList xs) = Inr (length xs)"
| "py_len rt (PStr s) = Inr (length s)"
| "py_len rt (PDict kvs) = Inr (length (AList.clearjunk kvs))"
| "py_len rt v = raise_op rt TypeError OpLen v"

text \<open>\<^verbatim>\<open>json.loads(v)\<close>: the codec on a string, \<^verbatim>\<open>TypeError\<close> on anything else.\<close>

fun py_loads :: "'w runtime \<Rightarrow> pyval \<Rightarrow> pyexc + pyval" where
  "py_loads rt (PStr s) = json_loads rt s"
| "py_loads rt v = raise_op rt TypeError OpLoads v"

text \<open>\<^verbatim>\<open>v.get(key, default)\<close>: only a dictionary has the method.\<close>

fun py_get :: "'w runtime \<Rightarrow> pyval \<Rightarrow> string \<Rightarrow> pyval \<Rightarrow> pyexc + pyval" where
  "py_get rt (PDict kvs) k d = Inr (case map_of kvs k of Some x \<Rightarrow> x | None \<Rightarrow> d)"
| "py_get rt v k d = raise_op rt AttributeError OpGetAttr v"

text \<open>
  \<^verbatim>\<open>sep.join(v)\<close>: \<open>v\<close> is iterated (a list gives its items, a string its characters, a
  dictionary its keys) and every item must be a string.
\<close>

fun join_strs :: "string \<Rightarrow> string list \<Rightarrow> string" where
  "join_strs sep [] = []"
| "join_strs sep [x] = x"
| "join_strs sep (x # y # ys) = x @ sep @ join_strs sep (y # ys)"

fun str_items :: "pyval list \<Rightarrow> string list option" where
  "str_items [] = Some []"
| "str_items (PStr s # xs) = map_option (Cons s) (str_items xs)"
| "str_items (v # xs) = None"

fun py_join :: "'w runtime \<Rightarrow> string \<Rightarrow> pyval \<Rightarrow> pyexc + string" where
  "py_join rt sep (PList xs) =
     (case str_items xs of
        Some ss \<Rightarrow> Inr (join_strs sep ss)
      | None \<Rightarrow> raise_op rt TypeError OpJoin (PList xs))"
| "py_join rt sep (PStr s) = Inr (join_strs sep (map (\<lambda>c. [c]) s))"
| "py_join rt sep (PDict kvs) = Inr (join_strs sep (map fst (AList.clearjunk kvs)))"
| "py_join rt sep v = raise_op rt TypeError OpJoin v"

text \<open>What \<^verbatim>\<open>str.format\<close> prints for a value: a string as it is, anything else by \<^verbatim>\<open>str()\<close>.\<close>

fun format_value :: "'w runtime \<Rightarrow> pyval \<Rightarrow> string" where
  "format_value rt (PStr s) = s"
| "format_value rt v = py_str rt v"

section \<open>The prompt template and \<^verbatim>\<open>str.format\<close>\<close>

text \<open>
  The template of \<^verbatim>\<open>Support_ticket.py\<close> (and of \<^verbatim>\<open>Support_ticket_st.py\<close>, which has the
  same text), line by line, the line of the ticket cut at its replacement field. It is
  a format string: \<^verbatim>\<open>{ticket_text}\<close> is its one replacement field and the doubled
  braces stand for the braces of the JSON example.
\<close>

definition template :: string where
  \<open>template =
     ''\<newline>'' @
     ''You are an AI assistant designed to classify and respond to support tickets.\<newline>'' @
     ''For each ticket, perform the following tasks:\<newline>'' @
     ''1. Classify the issue into a professional category based on the content of the ticket.\<newline>'' @
     ''Categories can include but are not limited to: technical issues, hardware issues,\<newline>'' @
     ''data recovery, software issues, user error, connectivity issues, or other relevant\<newline>'' @
     ''categories based on the ticket.\<newline>'' @
     ''2. Assign relevant tags that describe the issue. Tags can include data loss,\<newline>'' @
     ''internet connectivity, slow performance, security concerns, software crashes,\<newline>'' @
     ''or anything else related to the issue at hand.\<newline>'' @
     ''3. Determine the priority based on urgency: high, medium, or low.\<newline>'' @
     ''4. Suggest an estimated resolution time. For example, 2 hours, 4 hours, 1 day, or\<newline>'' @
     ''any reasonable estimate based on the issue's complexity.\<newline>'' @
     ''5. Generate a polite and empathetic first reply that acknowledges the user's concern,\<newline>'' @
     ''offers assistance, and sets expectations.\<newline>'' @
     ''6. Analyze sentiment of the ticket: positive, negative, or neutral,\<newline>'' @
     ''based on the tone and content of the customer.\<newline>'' @
     ''\<newline>'' @
     ''Support Ticket: '' @ ''{ticket_text}'' @ ''\<newline>'' @
     ''\<newline>'' @
     ''Your response should be in the following JSON format:\<newline>'' @
     ''{{\<newline>'' @
     ''    "category": "<category>",\<newline>'' @
     ''    "tags": ["<tag1>", "<tag2>"],\<newline>'' @
     ''    "priority": "<priority>",\<newline>'' @
     ''    "suggested_eta": "<time>",\<newline>'' @
     ''    "generated_reply": "<reply>",\<newline>'' @
     ''    "sentiment": "<sentiment>"\<newline>'' @
     ''}}\<newline>''\<close>

text \<open>
  \<^verbatim>\<open>fmt.format(**kwargs)\<close>, read left to right as the interpreter does: \<^verbatim>\<open>{{\<close> and
  \<^verbatim>\<open>}}\<close> give one brace, \<^verbatim>\<open>{name}\<close> gives the keyword argument of that name, a brace
  that is neither is a \<^verbatim>\<open>ValueError\<close>, a name with no argument a \<^verbatim>\<open>KeyError\<close>.
  Conversions, format specifications, positional fields and attribute or index lookups
  inside a field are not modelled (a field is read as a plain keyword name); the
  template uses none of them.
\<close>

definition is_close :: "char \<Rightarrow> bool" where
  "is_close c = (c = CHR ''}'')"

function str_format :: "'w runtime \<Rightarrow> (string \<times> pyval) list \<Rightarrow> string \<Rightarrow> pyexc + string" where
  "str_format rt kwargs [] = Inr []"
| "str_format rt kwargs (c # cs) =
     (if c = CHR ''{'' then
        (case cs of
           [] \<Rightarrow> Inl (Exc ValueError ''Single '{' encountered in format string'')
         | d # r \<Rightarrow>
             if d = CHR ''{'' then map_sum id (Cons (CHR ''{'')) (str_format rt kwargs r)
             else
               (case dropWhile (\<lambda>x. \<not> is_close x) cs of
                  [] \<Rightarrow> Inl (Exc ValueError ''expected '}' before end of string'')
                | e # rest \<Rightarrow>
                    (case map_of kwargs (takeWhile (\<lambda>x. \<not> is_close x) cs) of
                       None \<Rightarrow> Inl (Exc KeyError (takeWhile (\<lambda>x. \<not> is_close x) cs))
                     | Some v \<Rightarrow> map_sum id (append (format_value rt v)) (str_format rt kwargs rest))))
      else if is_close c then
        (case cs of
           [] \<Rightarrow> Inl (Exc ValueError ''Single '}' encountered in format string'')
         | d # r \<Rightarrow>
             if is_close d then map_sum id (Cons (CHR ''}'')) (str_format rt kwargs r)
             else Inl (Exc ValueError ''Single '}' encountered in format string''))
      else map_sum id (Cons c) (str_format rt kwargs cs))"
  by pat_completeness auto
termination
proof (relation "measure (\<lambda>(rt, kwargs, s). length s)")
  fix rt :: "'w runtime" and kwargs :: "(string \<times> pyval) list"
    and c :: char and cs :: string and e :: char and rest :: string
  assume "dropWhile (\<lambda>x. \<not> is_close x) cs = e # rest"
  then have "length (e # rest) \<le> length cs"
    by (metis length_dropWhile_le)
  then show "((rt, kwargs, rest), (rt, kwargs, c # cs)) \<in> measure (\<lambda>(rt, kwargs, s). length s)"
    by simp
qed auto

section \<open>\<^verbatim>\<open>send_prompt\<close>\<close>

text \<open>
  The dictionary \<^verbatim>\<open>send_prompt\<close> serialises into the request body. \<^verbatim>\<open>json.dumps\<close> is
  called before the \<^verbatim>\<open>try\<close>; on this dictionary (a string and three numbers) it returns.
  Printing, in verbose mode, is recorded as an event and taken to succeed.
\<close>

definition text_generation_config :: pyval where
  "text_generation_config =
     PDict [(''temperature'', PFloat (Finite 0.0)),
            (''topP'', PFloat (Finite 1.0)),
            (''maxTokenCount'', PInt 1000)]"

definition request_payload :: "string \<Rightarrow> pyval" where
  "request_payload prompt_data =
     PDict [(''inputText'', PStr prompt_data),
            (''textGenerationConfig'', text_generation_config)]"

definition build_request :: "'w runtime \<Rightarrow> string \<Rightarrow> request" where
  "build_request rt prompt_data =
     \<lparr>body = json_dumps rt None (request_payload prompt_data),
      modelId = ''amazon.titan-text-premier-v1:0'',
      accept = ''application/json'',
      contentType = ''application/json''\<rparr>"

text \<open>The call to the endpoint: it is recorded, and the outside world moves on.\<close>

definition call_endpoint :: "'w runtime \<Rightarrow> request \<Rightarrow> 'w world \<Rightarrow> (pyexc + string) \<times> 'w world" where
  "call_endpoint rt req w =
     (case invoke_model rt req (remote w) of
        (r, x) \<Rightarrow> (r, (emit (Invoked req) w)\<lparr>remote := x\<rparr>))"

text \<open>
  The two \<^verbatim>\<open>if\<close>s over the response: \<open>Some output_text\<close> when both hold, \<open>None\<close> when
  control falls through to the last \<^verbatim>\<open>return\<close> of the \<^verbatim>\<open>try\<close> block.
\<close>

definition extract_output :: "'w runtime \<Rightarrow> pyval \<Rightarrow> pyexc + pyval option" where
  "extract_output rt response_data =
     (case py_contains rt ''results'' response_data of
        Inl e \<Rightarrow> Inl e
      | Inr False \<Rightarrow> Inr None
      | Inr True \<Rightarrow>
          (case py_getitem rt response_data ''results'' of
             Inl e \<Rightarrow> Inl e
           | Inr results \<Rightarrow>
               (case py_len rt results of
                  Inl e \<Rightarrow> Inl e
                | Inr n \<Rightarrow>
                    if n > 0 then
                      (case py_getitem0 rt results of
                         Inl e \<Rightarrow> Inl e
                       | Inr result \<Rightarrow>
                           (case py_contains rt ''outputText'' result of
                              Inl e \<Rightarrow> Inl e
                            | Inr False \<Rightarrow> Inr None
                            | Inr True \<Rightarrow>
                                (case py_getitem rt result ''outputText'' of
                                   Inl e \<Rightarrow> Inl e
                                 | Inr output_text \<Rightarrow> Inr (Some output_text))))
                    else Inr None)))"

definition decode_error_response :: pyval where
  "decode_error_response = PDict [(''error'', PStr ''Error decoding the model's JSON response.'')]"

definition invalid_format_response :: pyval where
  "invalid_format_response = PDict [(''error'', PStr ''Invalid response format from Bedrock.'')]"

definition exception_response :: "pyexc \<Rightarrow> pyval" where
  "exception_response e = PDict [(''error'', PStr (''Error occurred: '' @ str_exc e))]"

text \<open>
  The inner \<^verbatim>\<open>try\<close>: only \<^verbatim>\<open>json.JSONDecodeError\<close> is caught there, any other exception
  goes on to the outer handler.
\<close>

definition parse_output ::
  "'w runtime \<Rightarrow> string \<Rightarrow> bool \<Rightarrow> pyval \<Rightarrow> 'w world \<Rightarrow> (pyexc + pyval) \<times> 'w world" where
  "parse_output rt prompt_data verbose output_text w =
     (case py_loads rt output_text of
        Inr structured_output \<Rightarrow>
          (Inr structured_output,
           if verbose then
             print (''\<newline>Ticket ID: '' @ prompt_data @ ''\<newline>Response: ''
                    @ json_dumps rt (Some 4) structured_output @ ''\<newline>'') w
           else w)
      | Inl e \<Rightarrow>
          if exc_class_of e = JSONDecodeError then (Inr decode_error_response, w)
          else (Inl e, w))"

text \<open>The body of the outer \<^verbatim>\<open>try\<close>.\<close>

definition try_block ::
  "'w runtime \<Rightarrow> string \<Rightarrow> bool \<Rightarrow> 'w world \<Rightarrow> (pyexc + pyval) \<times> 'w world" where
  "try_block rt prompt_data verbose w =
     (case call_endpoint rt (build_request rt prompt_data) w of
        (Inl e, w') \<Rightarrow> (Inl e, w')
      | (Inr text, w') \<Rightarrow>
          (case json_loads rt text of
             Inl e \<Rightarrow> (Inl e, w')
           | Inr response_data \<Rightarrow>
               (case extract_output rt response_data of
                  Inl e \<Rightarrow> (Inl e, w')
                | Inr None \<Rightarrow> (Inr invalid_format_response, w')
                | Inr (Some output_text) \<Rightarrow>
                    parse_output rt prompt_data verbose output_text w')))"

text \<open>
  \<^verbatim>\<open>send_prompt\<close>: whatever the \<^verbatim>\<open>try\<close> block raises is turned into a dictionary by
  \<^verbatim>\<open>except Exception as e\<close>. The result is still a sum, as for every function of the
  model that stands for Python code, so that "never raises" is a statement about it.
\<close>

definition send_prompt ::
  "'w runtime \<Rightarrow> string \<Rightarrow> bool \<Rightarrow> 'w world \<Rightarrow> (pyexc + pyval) \<times> 'w world" where
  "send_prompt rt prompt_data verbose w =
     (case try_block rt prompt_data verbose w of
        (Inr v, w') \<Rightarrow> (Inr v, w')
      | (Inl e, w') \<Rightarrow> (Inr (exception_response e), w'))"

section \<open>\<^verbatim>\<open>process_tickets\<close>\<close>

text \<open>\<^verbatim>\<open>row[label]\<close> on a row of the table.\<close>

definition row_get :: "'w runtime \<Rightarrow> string list \<Rightarrow> pyval list \<Rightarrow> string \<Rightarrow> pyexc + pyval" where
  "row_get rt cols row label =
     (case map_of (zip cols row) label of
        Some v \<Rightarrow> Inr v
      | None \<Rightarrow> raise_op rt KeyError OpGetItem (PStr label))"

text \<open>The dictionary appended when \<^verbatim>\<open>'error' in ai_response\<close>.\<close>

definition error_row :: "'w runtime \<Rightarrow> pyval \<Rightarrow> pyval \<Rightarrow> pyexc + report_row" where
  "error_row rt tick_id ai_response =
     (case py_getitem rt ai_response ''error'' of
        Inl e \<Rightarrow> Inl e
      | Inr err \<Rightarrow>
          Inr \<lparr>support_tick_id = tick_id,
               category = PStr ''Error'',
               tags = PStr ''Error'',
               priority = PStr ''Error'',
               suggested_eta = PStr ''Error'',
               generated_reply = err,
               sentiment = PStr ''Error''\<rparr>)"

text \<open>The dictionary appended otherwise; its values are computed in the order written.\<close>

definition success_row :: "'w runtime \<Rightarrow> pyval \<Rightarrow> pyval \<Rightarrow> pyexc + report_row" where
  "success_row rt tick_id ai_response =
     (case py_get rt ai_response ''category'' (PStr ''Unknown'') of
        Inl e \<Rightarrow> Inl e
      | Inr cat \<Rightarrow>
     (case py_get rt ai_response ''tags'' (PList []) of
        Inl e \<Rightarrow> Inl e
      | Inr tgs \<Rightarrow>
     (case py_join rt '', '' tgs of
        Inl e \<Rightarrow> Inl e
      | Inr joined \<Rightarrow>
     (case py_get rt ai_response ''priority'' (PStr ''Unknown'') of
        Inl e \<Rightarrow> Inl e
      | Inr prio \<Rightarrow>
     (case py_get rt ai_response ''suggested_eta'' (PStr ''Unknown'') of
        Inl e \<Rightarrow> Inl e
      | Inr eta \<Rightarrow>
     (case py_get rt ai_response ''generated_reply'' (PStr ''No reply generated'') of
        Inl e \<Rightarrow> Inl e
      | Inr reply \<Rightarrow>
     (case py_get rt ai_response ''sentiment'' (PStr ''Unknown'') of
        Inl e \<Rightarrow> Inl e
      | Inr sent \<Rightarrow>
          Inr \<lparr>support_tick_id = tick_id,
               category = cat,
               tags = PStr joined,
               priority = prio,
               suggested_eta = eta,
               generated_reply = reply,
               sentiment = sent\<rparr>)))))))"

text \<open>From \<^verbatim>\<open>ai_response\<close> to the appended dictionary: the \<^verbatim>\<open>if\<close>/\<^verbatim>\<open>else\<close> of the loop.\<close>

definition make_row :: "'w runtime \<Rightarrow> string list \<Rightarrow> pyval list \<Rightarrow> pyval \<Rightarrow> pyexc + report_row" where
  "make_row rt cols row ai_response =
     (case py_contains rt ''error'' ai_response of
        Inl e \<Rightarrow> Inl e
      | Inr is_error \<Rightarrow>
          (case row_get rt cols row ''support_tick_id'' of
             Inl e \<Rightarrow> Inl e
           | Inr tick_id \<Rightarrow>
               if is_error then error_row rt tick_id ai_response
               else success_row rt tick_id ai_response))"

text \<open>One turn of the loop over \<^verbatim>\<open>df.iterrows()\<close>.\<close>

definition loop_body ::
  "'w runtime \<Rightarrow> bool \<Rightarrow> string list \<Rightarrow> pyval list \<Rightarrow> 'w world \<Rightarrow> (pyexc + report_row) \<times> 'w world" where
  "loop_body rt verbose cols row w =
     (case row_get rt cols row ''support_ticket_text'' of
        Inl e \<Rightarrow> (Inl e, w)
      | Inr support_ticket_text \<Rightarrow>
          (case str_format rt [(''ticket_text'', support_ticket_text)] template of
             Inl e \<Rightarrow> (Inl e, w)
           | Inr prompt \<Rightarrow>
               (case send_prompt rt prompt verbose w of
                  (Inl e, w') \<Rightarrow> (Inl e, w')
                | (Inr ai_response, w') \<Rightarrow> (make_row rt cols row ai_response, w'))))"

text \<open>The loop: an exception in one turn leaves the loop, and the function, at once.\<close>

fun ticket_loop ::
  "'w runtime \<Rightarrow> bool \<Rightarrow> string list \<Rightarrow> pyval list list \<Rightarrow> report_row list \<Rightarrow> 'w world
     \<Rightarrow> (pyexc + report_row list) \<times> 'w world" where
  "ticket_loop rt verbose cols [] generated_data w = (Inr generated_data, w)"
| "ticket_loop rt verbose cols (row # later) generated_data w =
     (case loop_body rt verbose cols row w of
        (Inl e, w') \<Rightarrow> (Inl e, w')
      | (Inr r, w') \<Rightarrow> ticket_loop rt verbose cols later (generated_data @ [r]) w')"

definition missing_columns_message :: string where
  "missing_columns_message =
     ''Error: Required columns ('support_tick_id', 'support_ticket_text') are missing from the dataset.''"

definition save_csv :: "'w runtime \<Rightarrow> string \<Rightarrow> report_row list \<Rightarrow> 'w world \<Rightarrow> (pyexc + unit) \<times> 'w world" where
  "save_csv rt path result_df w =
     (case to_csv rt path result_df (remote w) of
        (Some e, x) \<Rightarrow> (Inl e, w\<lparr>remote := x\<rparr>)
      | (None, x) \<Rightarrow> (Inr (), (emit (Saved path result_df) w)\<lparr>remote := x\<rparr>))"

definition process_tickets ::
  "'w runtime \<Rightarrow> string \<Rightarrow> string \<Rightarrow> bool \<Rightarrow> 'w world \<Rightarrow> (pyexc + unit) \<times> 'w world" where
  "process_tickets rt input_csv output_csv verbose w =
     (case read_csv rt input_csv of
        Inl e \<Rightarrow> (Inl e, w)
      | Inr df \<Rightarrow>
          if ''support_tick_id'' \<notin> set (columns df) \<or> ''support_ticket_text'' \<notin> set (columns df)
          then (Inr (), print missing_columns_message w)
          else
            (case ticket_loop rt verbose (columns df) (rows df) [] w of
               (Inl e, w') \<Rightarrow> (Inl e, w')
             | (Inr generated_data, w') \<Rightarrow>
                 (case save_csv rt output_csv generated_data w' of
                    (Inl e, w'') \<Rightarrow> (Inl e, w'')
                  | (Inr u, w'') \<Rightarrow>
                      (Inr (), print (''Processed data saved to '' @ output_csv) w''))))"

section \<open>The LangChain script \<^verbatim>\<open>support_ticket.py\<close>\<close>

text \<open>
  The script runs at module level. Its names are prefixed with \<open>lc\<close> here, since two of
  them (\<^verbatim>\<open>template\<close>, \<^verbatim>\<open>llm\<close>) are taken.
\<close>

definition lc_llm :: bedrock_llm where
  "lc_llm =
     \<lparr>model_id = ''amazon.titan-text-lite-v1'',
      model_kwargs = [(''temperature'', PFloat (Finite 0.1)), (''maxTokenCount'', PInt 1000)],
      region_name = ''us-east-1'',
      endpoint_url = ''https://bedrock-runtime.us-east-1.amazonaws.com/''\<rparr>"

definition lc_template :: string where
  \<open>lc_template =
     ''\<newline>'' @
     ''You are an AI assistant designed to classify and respond to support tickets. \<newline>'' @
     ''For each ticket, perform the following tasks:\<newline>'' @
     ''1. Classify the issue into a professional category based on the content of the ticket. \<newline>'' @
     ''Categories can include but are not limited to: technical issues, hardware issues, \<newline>'' @
     ''data recovery, software issues, user error, connectivity issues, or other relevant \<newline>'' @
     ''categories based on the ticket.\<newline>'' @
     ''2. Assign relevant tags that describe the issue. Tags can include data loss, \<newline>'' @
     ''internet connectivity, slow performance, security concerns, software crashes, \<newline>'' @
     ''or anything else related to the issue at hand.\<newline>'' @
     ''3. Determine the priority based on urgency: high, medium, or low.\<newline>'' @
     ''4. Suggest an estimated resolution time. For example, 2 hours, 4 hours, 1 day, or \<newline>'' @
     ''any reasonable estimate based on the issue's complexity.\<newline>'' @
     ''5. Generate a polite and empathetic first reply that acknowledges the user's concern, \<newline>'' @
     ''offers assistance, and sets expectations.\<newline>'' @
     ''6. Analyze sentiment of the ticket: positive, negative, or neutral, \<newline>'' @
     ''based on the tone and content of the customer.\<newline>'' @
     ''\<newline>'' @
     ''Support Ticket: {ticket_text}\<newline>'' @
     ''\<newline>'' @
     ''Your response should be in the following JSON format:\<newline>'' @
     ''{{\<newline>'' @
     ''    "category": "<category>",\<newline>'' @
     ''    "tags": ["<tag1>", "<tag2>"],\<newline>'' @
     ''    "priority": "<priority>",\<newline>'' @
     ''    "suggested_eta": "<time>",\<newline>'' @
     ''    "generated_reply": "<reply>",\<newline>'' @
     ''    "sentiment": "<sentiment>"\<newline>'' @
     ''}}\<newline>''\<close>

definition lc_chain :: llm_chain where
  "lc_chain = \<lparr>llm = lc_llm, input_variables = [''ticket_text''], prompt_template = lc_template\<rparr>"

definition lc_file_path :: string where
  "lc_file_path = ''Support_ticket_text_data.csv''"

definition lc_output_path :: string where
  "lc_output_path = ''processed_support_tickets.csv''"

definition lc_missing_columns :: pyexc where
  "lc_missing_columns =
     Exc ValueError
       ''The input CSV file must contain 'support_tick_id' and 'support_ticket_text' columns.''"

text \<open>The default error response, the same literal in both handlers.\<close>

definition lc_error_response :: pyval where
  "lc_error_response =
     PDict [(''category'', PStr ''error''),
            (''tags'', PList []),
            (''priority'', PStr ''low''),
            (''suggested_eta'', PStr ''N/A''),
            (''generated_reply'', PStr ''Error processing ticket.''),
            (''sentiment'', PStr ''neutral'')]"

definition lc_run :: "'w runtime \<Rightarrow> pyval \<Rightarrow> 'w world \<Rightarrow> (pyexc + string) \<times> 'w world" where
  "lc_run rt inputs w =
     (case chain_run rt lc_chain inputs (remote w) of
        (r, x) \<Rightarrow> (r, (emit (ChainRun lc_chain inputs) w)\<lparr>remote := x\<rparr>))"

text \<open>
  The two handlers. \<open>response\<close> is the module variable of that name: \<open>None\<close> while it
  has not been assigned, in which case reading it in the first handler is a \<^verbatim>\<open>NameError\<close>
  raised outside any \<^verbatim>\<open>try\<close>.
\<close>

definition lc_handle ::
  "'w runtime \<Rightarrow> string list \<Rightarrow> pyval list \<Rightarrow> pyexc \<Rightarrow> string option \<Rightarrow> pyval list \<Rightarrow> 'w world
     \<Rightarrow> (pyexc + string option \<times> pyval list) \<times> 'w world" where
  "lc_handle rt cols row e response results w =
     (case row_get rt cols row ''support_tick_id'' of
        Inl e' \<Rightarrow> (Inl e', w)
      | Inr tick_id \<Rightarrow>
          if exc_class_of e = JSONDecodeError then
            (case response of
               None \<Rightarrow> (raise_op rt NameError OpName (PStr ''response''), w)
             | Some r \<Rightarrow>
                 (Inr (response, results @ [lc_error_response]),
                  print (''Invalid JSON response for ticket ID '' @ format_value rt tick_id
                         @ '': '' @ r) w))
          else
            (Inr (response, results @ [lc_error_response]),
             print (''Error processing ticket ID '' @ format_value rt tick_id
                    @ '': '' @ str_exc e) w))"

text \<open>One turn of the loop of the script.\<close>

definition lc_loop_body ::
  "'w runtime \<Rightarrow> string list \<Rightarrow> pyval list \<Rightarrow> string option \<Rightarrow> pyval list \<Rightarrow> 'w world
     \<Rightarrow> (pyexc + string option \<times> pyval list) \<times> 'w world" where
  "lc_loop_body rt cols row response results w =
     (case row_get rt cols row ''support_ticket_text'' of
        Inl e \<Rightarrow> (Inl e, w)
      | Inr ticket_text \<Rightarrow>
          (case lc_run rt (PDict [(''ticket_text'', ticket_text)]) w of
             (Inl e, w') \<Rightarrow> lc_handle rt cols row e response results w'
           | (Inr r, w') \<Rightarrow>
               (case json_loads rt r of
                  Inl e \<Rightarrow> lc_handle rt cols row e (Some r) results w'
                | Inr parsed_response \<Rightarrow> (Inr (Some r, results @ [parsed_response]), w'))))"

fun lc_loop ::
  "'w runtime \<Rightarrow> string list \<Rightarrow> pyval list list \<Rightarrow> string option \<Rightarrow> pyval list \<Rightarrow> 'w world
     \<Rightarrow> (pyexc + string option \<times> pyval list) \<times> 'w world" where
  "lc_loop rt cols [] response results w = (Inr (response, results), w)"
| "lc_loop rt cols (row # later) response results w =
     (case lc_loop_body rt cols row response results w of
        (Inl e, w') \<Rightarrow> (Inl e, w')
      | (Inr (response', results'), w') \<Rightarrow> lc_loop rt cols later response' results' w')"

definition lc_save ::
  "'w runtime \<Rightarrow> dataframe \<Rightarrow> pyval list \<Rightarrow> 'w world \<Rightarrow> (pyexc + unit) \<times> 'w world" where
  "lc_save rt support_df results w =
     (case save_joined rt lc_output_path support_df results (remote w) of
        (Some e, x) \<Rightarrow> (Inl e, w\<lparr>remote := x\<rparr>)
      | (None, x) \<Rightarrow>
          (Inr (), (emit (SavedJoined lc_output_path support_df results) w)\<lparr>remote := x\<rparr>))"

text \<open>The script from \<^verbatim>\<open>pd.read_csv\<close> to \<^verbatim>\<open>to_csv\<close>.\<close>

definition lc_main :: "'w runtime \<Rightarrow> 'w world \<Rightarrow> (pyexc + unit) \<times> 'w world" where
  "lc_main rt w =
     (case read_csv rt lc_file_path of
        Inl e \<Rightarrow> (Inl e, w)
      | Inr support_df \<Rightarrow>
          if ''support_tick_id'' \<notin> set (columns support_df)
             \<or> ''support_ticket_text'' \<notin> set (columns support_df)
          then (Inl lc_missing_columns, w)
          else
            (case lc_loop rt (columns support_df) (rows support_df) None [] w of
               (Inl e, w') \<Rightarrow> (Inl e, w')
             | (Inr (response, results), w') \<Rightarrow> lc_save rt support_df results w'))"

section \<open>A test double of the runtime\<close>

text \<open>
  The closed examples below run the model on a stand-in for the libraries, as the tests
  of such a pipeline would: the endpoint serves canned outcomes from a queue (and times
  out when the queue is empty), the CSV reader serves two small tables, the writers
  succeed. \<open>fake_loads\<close> is \<^verbatim>\<open>json.loads\<close> on the texts listed in \<open>known_json\<close>, on the
  response envelopes around them, and on \<^verbatim>\<open>not json\<close>, which it rejects as Python does;
  no example uses it on any other text. The serialiser, \<^verbatim>\<open>str()\<close> and the interpreter's
  messages are placeholders: no example depends on what they return.
\<close>

definition not_json :: string where
  "not_json = ''not json''"

definition number_json :: string where
  "number_json = ''5''"

definition array_json :: string where
  "array_json = ''[]''"

definition null_tags_json :: string where
  \<open>null_tags_json = ''{"category": "billing", "tags": null}''\<close>

definition boom_json :: string where
  \<open>boom_json = ''{"error": "boom"}''\<close>

definition echo_json :: string where
  \<open>echo_json = ''{"error": "Error decoding the model's JSON response."}''\<close>

definition full_json :: string where
  \<open>full_json =
     ''{"category": "hardware issues", "tags": ["boot failure"], "priority": "high", ''
     @ ''"suggested_eta": "2 hours", "generated_reply": "We're sorry...", ''
     @ ''"sentiment": "negative"}''\<close>

definition no_tags_json :: string where
  \<open>no_tags_json =
     ''{"category": "hardware issues", "priority": "high", ''
     @ ''"suggested_eta": "2 hours", "generated_reply": "We're sorry...", ''
     @ ''"sentiment": "negative"}''\<close>

definition flagged_json :: string where
  \<open>flagged_json =
     ''{"category": "billing", "tags": ["refund"], "priority": "low", ''
     @ ''"suggested_eta": "1 day", "generated_reply": "Hello", ''
     @ ''"sentiment": "neutral", "error": "none"}''\<close>

definition denied_json :: string where
  \<open>denied_json = ''{"message": "denied"}''\<close>

definition known_json :: "(string \<times> pyval) list" where
  "known_json =
    [(number_json, PInt 5),
     (array_json, PList []),
     (null_tags_json, PDict [(''category'', PStr ''billing''), (''tags'', PNone)]),
     (boom_json, PDict [(''error'', PStr ''boom'')]),
     (echo_json, PDict [(''error'', PStr ''Error decoding the model's JSON response.'')]),
     (full_json,
        PDict [(''category'', PStr ''hardware issues''), (''tags'', PList [PStr ''boot failure'']),
               (''priority'', PStr ''high''), (''suggested_eta'', PStr ''2 hours''),
               (''generated_reply'', PStr ''We're sorry...''), (''sentiment'', PStr ''negative'')]),
     (no_tags_json,
        PDict [(''category'', PStr ''hardware issues''),
               (''priority'', PStr ''high''), (''suggested_eta'', PStr ''2 hours''),
               (''generated_reply'', PStr ''We're sorry...''), (''sentiment'', PStr ''negative'')]),
     (flagged_json,
        PDict [(''category'', PStr ''billing''), (''tags'', PList [PStr ''refund'']),
               (''priority'', PStr ''low''), (''suggested_eta'', PStr ''1 day''),
               (''generated_reply'', PStr ''Hello''), (''sentiment'', PStr ''neutral''),
               (''error'', PStr ''none'')]),
     (denied_json, PDict [(''message'', PStr ''denied'')])]"

text \<open>A string as a JSON string literal (enough for text without control characters).\<close>

definition json_quote :: "string \<Rightarrow> string" where
  "json_quote s =
     [CHR 0x22]
     @ concat (map (\<lambda>c. if c = CHR 0x22 \<or> c = CHR 0x5C then [CHR 0x5C, c] else [c]) s)
     @ [CHR 0x22]"

definition envelope_text :: "string \<Rightarrow> string" where
  \<open>envelope_text c = ''{"results": [{"outputText": '' @ json_quote c @ ''}]}''\<close>

definition envelope_value :: "string \<Rightarrow> pyval" where
  "envelope_value c = PDict [(''results'', PList [PDict [(''outputText'', PStr c)]])]"

definition fake_loads :: "string \<Rightarrow> pyexc + pyval" where
  "fake_loads s =
     (case map_of (known_json
                   @ map (\<lambda>(c, v). (envelope_text c, envelope_value c)) known_json
                   @ [(envelope_text not_json, envelope_value not_json)]) s of
        Some v \<Rightarrow> Inr v
      | None \<Rightarrow> Inl (Exc JSONDecodeError ''Expecting value: line 1 column 1 (char 0)''))"

definition first_row :: "pyval list" where
  "first_row = [PStr ''T1'', PStr ''My laptop won't boot'']"

definition second_row :: "pyval list" where
  "second_row = [PStr ''T2'', PStr ''Please refund my order'']"

definition ticket_columns :: "string list" where
  "ticket_columns = [''support_tick_id'', ''support_ticket_text'']"

definition tickets_csv :: dataframe where
  "tickets_csv =
     \<lparr>columns = ticket_columns,
      rows = [first_row, second_row]\<rparr>"

definition no_text_csv :: dataframe where
  "no_text_csv =
     \<lparr>columns = [''support_tick_id'', ''text''],
      rows = [first_row]\<rparr>"

definition fake_read_csv :: "string \<Rightarrow> pyexc + dataframe" where
  "fake_read_csv path =
     (if path = ''tickets.csv'' then Inr tickets_csv
      else if path = ''no_text.csv'' \<or> path = lc_file_path then Inr no_text_csv
      else Inl (Exc OtherException ''No such file or directory''))"

definition serve :: "(pyexc + string) list \<Rightarrow> (pyexc + string) \<times> (pyexc + string) list" where
  "serve queue =
     (case queue of
        [] \<Rightarrow> (Inl (Exc OtherException ''timeout''), [])
      | r # rs \<Rightarrow> (r, rs))"

definition fake_rt :: "(pyexc + string) list runtime" where
  "fake_rt =
     \<lparr>json_loads = fake_loads,
      json_dumps = (\<lambda>indent v. ''(json)''),
      py_str = (\<lambda>v. ''(str)''),
      message = (\<lambda>op v. ''(message)''),
      read_csv = fake_read_csv,
      to_csv = (\<lambda>path result_df x. (None, x)),
      save_joined = (\<lambda>path support_df results x. (None, x)),
      invoke_model = (\<lambda>req. serve),
      chain_run = (\<lambda>chain inputs. serve)\<rparr>"

definition fresh :: "(pyexc + string) list \<Rightarrow> (pyexc + string) list world" where
  "fresh queue = \<lparr>events = [], remote = queue\<rparr>"

text \<open>What is left of a run when the requests are not of interest.\<close>

fun is_invoked :: "event \<Rightarrow> bool" where
  "is_invoked (Invoked req) = True"
| "is_invoked ev = False"

fun is_saved :: "event \<Rightarrow> bool" where
  "is_saved (Saved path result_df) = True"
| "is_saved (SavedJoined path support_df results) = True"
| "is_saved ev = False"

text \<open>The requests among the events of a run, and the chain calls among them.\<close>

fun requests :: "event list \<Rightarrow> request list" where
  "requests [] = []"
| "requests (Invoked req # evs) = req # requests evs"
| "requests (ev # evs) = requests evs"

fun chain_calls :: "event list \<Rightarrow> (llm_chain \<times> pyval) list" where
  "chain_calls [] = []"
| "chain_calls (ChainRun chain inputs # evs) = (chain, inputs) # chain_calls evs"
| "chain_calls (ev # evs) = chain_calls evs"

text \<open>The row \<^verbatim>\<open>process_tickets\<close> appends for a failed ticket, with its reply text.\<close>

definition error_sentinel :: "pyval \<Rightarrow> pyval \<Rightarrow> report_row" where
  "error_sentinel tick_id reply =
     \<lparr>support_tick_id = tick_id,
      category = PStr ''Error'',
      tags = PStr ''Error'',
      priority = PStr ''Error'',
      suggested_eta = PStr ''Error'',
      generated_reply = reply,
      sentiment = PStr ''Error''\<rparr>"

section \<open>The prompt the model is given\<close>

text \<open>
  The instruction text around the ticket, as it reaches the model: the template up to the
  replacement field, and the template after it with the braces of the JSON example single.
\<close>

definition prompt_before :: string where
  \<open>prompt_before =
     ''\<newline>'' @
     ''You are an AI assistant designed to classify and respond to support tickets.\<newline>'' @
     ''For each ticket, perform the following tasks:\<newline>'' @
     ''1. Classify the issue into a professional category based on the content of the ticket.\<newline>'' @
     ''Categories can include but are not limited to: technical issues, hardware issues,\<newline>'' @
     ''data recovery, software issues, user error, connectivity issues, or other relevant\<newline>'' @
     ''categories based on the ticket.\<newline>'' @
     ''2. Assign relevant tags that describe the issue. Tags can include data loss,\<newline>'' @
     ''internet connectivity, slow performance, security concerns, software crashes,\<newline>'' @
     ''or anything else related to the issue at hand.\<newline>'' @
     ''3. Determine the priority based on urgency: high, medium, or low.\<newline>'' @
     ''4. Suggest an estimated resolution time. For example, 2 hours, 4 hours, 1 day, or\<newline>'' @
     ''any reasonable estimate based on the issue's complexity.\<newline>'' @
     ''5. Generate a polite and empathetic first reply that acknowledges the user's concern,\<newline>'' @
     ''offers assistance, and sets expectations.\<newline>'' @
     ''6. Analyze sentiment of the ticket: positive, negative, or neutral,\<newline>'' @
     ''based on the tone and content of the customer.\<newline>'' @
     ''\<newline>'' @
     ''Support Ticket: ''\<close>

definition prompt_after :: string where
  \<open>prompt_after =
     ''\<newline>'' @
     ''\<newline>'' @
     ''Your response should be in the following JSON format:\<newline>'' @
     ''{\<newline>'' @
     ''    "category": "<category>",\<newline>'' @
     ''    "tags": ["<tag1>", "<tag2>"],\<newline>'' @
     ''    "priority": "<priority>",\<newline>'' @
     ''    "suggested_eta": "<time>",\<newline>'' @
     ''    "generated_reply": "<reply>",\<newline>'' @
     ''    "sentiment": "<sentiment>"\<newline>'' @
     ''}\<newline>''\<close>

text \<open>Writing a text as a format string: every brace is doubled.\<close>

fun escape_braces :: "string \<Rightarrow> string" where
  "escape_braces [] = []"
| "escape_braces (c # cs) =
     (if c = CHR ''{'' \<or> c = CHR ''}'' then c # c # escape_braces cs else c # escape_braces cs)"

text \<open>A text without braces: \<^verbatim>\<open>str.format\<close> copies it as it is.\<close>

definition plain :: "string \<Rightarrow> bool" where
  "plain s = list_all (\<lambda>c. c \<noteq> CHR ''{'' \<and> c \<noteq> CHR ''}'') s"

text \<open>The prompt \<^verbatim>\<open>process_tickets\<close> sends for a cell of the text column.\<close>

definition prompt_for :: "'w runtime \<Rightarrow> pyval \<Rightarrow> string" where
  "prompt_for rt support_ticket_text =
     prompt_before @ format_value rt support_ticket_text @ prompt_after"

text \<open>
  What the \<^verbatim>\<open>try\<close> block has in hand when it reaches the inner \<^verbatim>\<open>try\<close>: the exception
  raised on the way, \<open>None\<close> when the response has no result to read, or the value of
  \<^verbatim>\<open>outputText\<close>.
\<close>

definition delivered :: "'w runtime \<Rightarrow> string \<Rightarrow> 'w world \<Rightarrow> pyexc + pyval option" where
  "delivered rt prompt_data w =
     (case fst (invoke_model rt (build_request rt prompt_data) (remote w)) of
        Inl e \<Rightarrow> Inl e
      | Inr text \<Rightarrow>
          (case json_loads rt text of
             Inl e \<Rightarrow> Inl e
           | Inr response_data \<Rightarrow> extract_output rt response_data))"

section \<open>Rendering the template\<close>

lemma plain_simps:
  "plain [] = True"
  "plain (c # cs) = (c \<noteq> CHR ''{'' \<and> c \<noteq> CHR ''}'' \<and> plain cs)"
  by (simp_all add: plain_def)

lemma str_format_plain:
  "plain pre \<Longrightarrow> str_format rt kw (pre @ s) = map_sum id (append pre) (str_format rt kw s)"
proof (induction pre)
  case Nil
  show ?case by (simp add: map_sum.id id_def[symmetric])
next
  case (Cons c pre)
  then show ?case
    by (cases "str_format rt kw s") (simp_all add: plain_simps is_close_def)
qed

lemma escape_braces_append: "escape_braces (a @ b) = escape_braces a @ escape_braces b"
  by (induction a) simp_all

lemma str_format_field:
  "str_format rt [(''ticket_text'', v)] (''{ticket_text}'' @ s)
     = map_sum id (append (format_value rt v)) (str_format rt [(''ticket_text'', v)] s)"
  by (simp add: is_close_def)

lemma str_format_open:
  "str_format rt kw (''{{\<newline>'' @ s) = map_sum id (append ''{\<newline>'') (str_format rt kw s)"
  by (cases "str_format rt kw s") (simp_all add: is_close_def)

lemma template_escapes_prompt:
  "template = escape_braces prompt_before @ ''{ticket_text}'' @ escape_braces prompt_after"
  unfolding template_def prompt_before_def prompt_after_def
  by (simp add: escape_braces_append del: append.simps)

lemma render_template:
  "str_format rt [(''ticket_text'', v)] template = Inr (prompt_for rt v)"
  unfolding template_def prompt_for_def prompt_before_def prompt_after_def
  by (simp add: str_format_plain str_format_field str_format_open plain_simps is_close_def
           del: append.simps)

section \<open>What \<^verbatim>\<open>send_prompt\<close> returns\<close>

lemma call_endpoint_fst:
  "fst (call_endpoint rt req w) = fst (invoke_model rt req (remote w))"
  by (simp add: call_endpoint_def split: prod.splits)

lemma call_endpoint_events:
  "events (snd (call_endpoint rt req w)) = events w @ [Invoked req]"
  by (simp add: call_endpoint_def emit_def split: prod.splits)




lemma send_prompt_output:
  "delivered rt prompt_data w = Inr (Some output_text)
     \<Longrightarrow> fst (send_prompt rt prompt_data verbose w)
         = (case py_loads rt output_text of
              Inr structured_output \<Rightarrow> Inr structured_output
            | Inl e \<Rightarrow>
                if exc_class_of e = JSONDecodeError then Inr decode_error_response
                else Inr (exception_response e))"
  by (auto simp: send_prompt_def try_block_def delivered_def call_endpoint_def parse_output_def
           split: prod.splits sum.splits option.splits)

lemma loop_body_unfold:
  "row_get rt cols row ''support_ticket_text'' = Inr text
     \<Longrightarrow> loop_body rt verbose cols row w
         = (case send_prompt rt (prompt_for rt text) verbose w of
              (Inl e, w') \<Rightarrow> (Inl e, w')
            | (Inr ai_response, w') \<Rightarrow> (make_row rt cols row ai_response, w'))"
  by (simp add: loop_body_def render_template)

lemma loop_body_row:
  "row_get rt cols row ''support_ticket_text'' = Inr text
     \<Longrightarrow> fst (send_prompt rt (prompt_for rt text) verbose w) = Inr ai_response
     \<Longrightarrow> fst (loop_body rt verbose cols row w) = make_row rt cols row ai_response"
  by (cases "send_prompt rt (prompt_for rt text) verbose w") (auto simp: loop_body_unfold)

lemma make_row_error:
  "map_of kvs ''error'' = Some err
     \<Longrightarrow> row_get rt cols row ''support_tick_id'' = Inr tick_id
     \<Longrightarrow> make_row rt cols row (PDict kvs)
         = Inr (error_sentinel tick_id err)"
proof -
  assume a: "map_of kvs ''error'' = Some err"
    and b: "row_get rt cols row ''support_tick_id'' = Inr tick_id"
  from a have "''error'' \<in> set (map fst kvs)"
    by (metis map_of_eq_None_iff option.distinct(1) set_map)
  with a b show ?thesis
    by (simp add: make_row_def error_row_def error_sentinel_def)
qed

lemma make_row_success:
  "map_of kvs ''error'' = None
     \<Longrightarrow> row_get rt cols row ''support_tick_id'' = Inr tick_id
     \<Longrightarrow> make_row rt cols row (PDict kvs) = success_row rt tick_id (PDict kvs)"
proof -
  assume a: "map_of kvs ''error'' = None"
    and b: "row_get rt cols row ''support_tick_id'' = Inr tick_id"
  from a have "''error'' \<notin> set (map fst kvs)"
    by (metis map_of_eq_None_iff set_map)
  with b show ?thesis
    by (simp add: make_row_def)
qed

section \<open>The test double, evaluated\<close>

lemmas sample_defs =
  not_json_def number_json_def array_json_def null_tags_json_def boom_json_def echo_json_def
  full_json_def no_tags_json_def flagged_json_def denied_json_def

lemma fake_loads_completions:
  "fake_loads not_json = Inl (Exc JSONDecodeError ''Expecting value: line 1 column 1 (char 0)'')"
  "fake_loads number_json = Inr (PInt 5)"
  "fake_loads array_json = Inr (PList [])"
  "fake_loads null_tags_json = Inr (PDict [(''category'', PStr ''billing''), (''tags'', PNone)])"
  "fake_loads boom_json = Inr (PDict [(''error'', PStr ''boom'')])"
  "fake_loads echo_json
     = Inr (PDict [(''error'', PStr ''Error decoding the model's JSON response.'')])"
  "fake_loads denied_json = Inr (PDict [(''message'', PStr ''denied'')])"
  by (simp_all add: fake_loads_def known_json_def sample_defs envelope_text_def json_quote_def)

lemma fake_loads_objects:
  "fake_loads full_json
     = Inr (PDict [(''category'', PStr ''hardware issues''), (''tags'', PList [PStr ''boot failure'']),
                   (''priority'', PStr ''high''), (''suggested_eta'', PStr ''2 hours''),
                   (''generated_reply'', PStr ''We're sorry...''), (''sentiment'', PStr ''negative'')])"
  "fake_loads no_tags_json
     = Inr (PDict [(''category'', PStr ''hardware issues''),
                   (''priority'', PStr ''high''), (''suggested_eta'', PStr ''2 hours''),
                   (''generated_reply'', PStr ''We're sorry...''), (''sentiment'', PStr ''negative'')])"
  "fake_loads flagged_json
     = Inr (PDict [(''category'', PStr ''billing''), (''tags'', PList [PStr ''refund'']),
                   (''priority'', PStr ''low''), (''suggested_eta'', PStr ''1 day''),
                   (''generated_reply'', PStr ''Hello''), (''sentiment'', PStr ''neutral''),
                   (''error'', PStr ''none'')])"
  by (simp_all add: fake_loads_def known_json_def sample_defs envelope_text_def json_quote_def)

lemma fake_loads_envelopes:
  "fake_loads (envelope_text not_json) = Inr (envelope_value not_json)"
  "fake_loads (envelope_text number_json) = Inr (envelope_value number_json)"
  "fake_loads (envelope_text array_json) = Inr (envelope_value array_json)"
  "fake_loads (envelope_text null_tags_json) = Inr (envelope_value null_tags_json)"
  "fake_loads (envelope_text boom_json) = Inr (envelope_value boom_json)"
  "fake_loads (envelope_text echo_json) = Inr (envelope_value echo_json)"
  "fake_loads (envelope_text full_json) = Inr (envelope_value full_json)"
  "fake_loads (envelope_text no_tags_json) = Inr (envelope_value no_tags_json)"
  "fake_loads (envelope_text flagged_json) = Inr (envelope_value flagged_json)"
  by (simp_all add: fake_loads_def known_json_def sample_defs envelope_text_def json_quote_def
                    envelope_value_def)

lemma fake_rt_fields:
  "json_loads fake_rt = fake_loads"
  "json_dumps fake_rt indent v = ''(json)''"
  "py_str fake_rt v = ''(str)''"
  "message fake_rt op v = ''(message)''"
  "read_csv fake_rt = fake_read_csv"
  "to_csv fake_rt path result_df x = (None, x)"
  "save_joined fake_rt path support_df results x = (None, x)"
  "invoke_model fake_rt req = serve"
  "chain_run fake_rt chain inputs = serve"
  by (simp_all add: fake_rt_def)

lemma extract_output_envelope:
  "extract_output rt (envelope_value c) = Inr (Some (PStr c))"
  by (simp add: extract_output_def envelope_value_def)

lemma fake_delivered:
  "fake_loads (envelope_text c) = Inr (envelope_value c)
     \<Longrightarrow> delivered fake_rt prompt_data (fresh (Inr (envelope_text c) # queue)) = Inr (Some (PStr c))"
  by (simp add: delivered_def fake_rt_fields serve_def fresh_def extract_output_envelope)


lemma first_row_cells:
  "row_get rt ticket_columns first_row ''support_ticket_text'' = Inr (PStr ''My laptop won't boot'')"
  "row_get rt ticket_columns first_row ''support_tick_id'' = Inr (PStr ''T1'')"
  by (simp_all add: row_get_def ticket_columns_def first_row_def)

lemma second_row_cells:
  "row_get rt ticket_columns second_row ''support_ticket_text'' = Inr (PStr ''Please refund my order'')"
  "row_get rt ticket_columns second_row ''support_tick_id'' = Inr (PStr ''T2'')"
  by (simp_all add: row_get_def ticket_columns_def second_row_def)

lemma requests_append: "requests (a @ b) = requests a @ requests b"
  by (induction a rule: requests.induct) simp_all

lemma chain_calls_append: "chain_calls (a @ b) = chain_calls a @ chain_calls b"
  by (induction a rule: chain_calls.induct) simp_all

section \<open>The calls a run makes\<close>

lemma send_prompt_requests:
  "requests (events (snd (send_prompt rt prompt_data verbose w)))
     = requests (events w) @ [build_request rt prompt_data]"
  by (auto simp: send_prompt_def try_block_def call_endpoint_def parse_output_def print_def
                 emit_def requests_append
           split: prod.splits sum.splits option.splits)

lemma loop_body_requests:
  "\<exists>prompts. requests (events (snd (loop_body rt verbose cols row w)))
               = requests (events w) @ map (build_request rt) prompts"
proof (cases "row_get rt cols row ''support_ticket_text''")
  case (Inl e)
  then have "requests (events (snd (loop_body rt verbose cols row w)))
               = requests (events w) @ map (build_request rt) []"
    by (simp add: loop_body_def)
  then show ?thesis by blast
next
  case (Inr cell)
  have "snd (loop_body rt verbose cols row w) = snd (send_prompt rt (prompt_for rt cell) verbose w)"
    by (simp add: loop_body_unfold[OF Inr] split: prod.splits sum.splits)
  then have "requests (events (snd (loop_body rt verbose cols row w)))
               = requests (events w) @ map (build_request rt) [prompt_for rt cell]"
    by (simp add: send_prompt_requests)
  then show ?thesis by blast
qed

lemma ticket_loop_requests:
  "\<exists>prompts. requests (events (snd (ticket_loop rt verbose cols table generated_data w)))
               = requests (events w) @ map (build_request rt) prompts"
proof (induction table arbitrary: generated_data w)
  case Nil
  have "requests (events (snd (ticket_loop rt verbose cols [] generated_data w)))
          = requests (events w) @ map (build_request rt) []"
    by simp
  then show ?case by blast
next
  case (Cons row later)
  obtain r w' where step: "loop_body rt verbose cols row w = (r, w')"
    by (cases "loop_body rt verbose cols row w")
  obtain ps where ps: "requests (events w') = requests (events w) @ map (build_request rt) ps"
    using loop_body_requests[of rt verbose cols row w] step by auto
  show ?case
  proof (cases r)
    case (Inl e)
    then show ?thesis using step ps by auto
  next
    case (Inr out)
    obtain qs where "requests (events (snd (ticket_loop rt verbose cols later (generated_data @ [out]) w')))
                       = requests (events w') @ map (build_request rt) qs"
      using Cons.IH by blast
    then have "requests (events (snd (ticket_loop rt verbose cols (row # later) generated_data w)))
                 = requests (events w) @ map (build_request rt) (ps @ qs)"
      using step Inr ps by simp
    then show ?thesis by blast
  qed
qed

lemma process_tickets_requests:
  "\<exists>prompts. requests (events (snd (process_tickets rt input_csv output_csv verbose w)))
               = requests (events w) @ map (build_request rt) prompts"
proof (cases "read_csv rt input_csv")
  case (Inl e)
  then have "requests (events (snd (process_tickets rt input_csv output_csv verbose w)))
               = requests (events w) @ map (build_request rt) []"
    by (simp add: process_tickets_def)
  then show ?thesis by blast
next
  case (Inr df)
  obtain ps where ps:
    "requests (events (snd (ticket_loop rt verbose (columns df) (rows df) [] w)))
       = requests (events w) @ map (build_request rt) ps"
    using ticket_loop_requests by blast
  have "requests (events (snd (process_tickets rt input_csv output_csv verbose w)))
          = requests (events w) @ map (build_request rt) ps
        \<or> requests (events (snd (process_tickets rt input_csv output_csv verbose w)))
          = requests (events w) @ map (build_request rt) []"
    using Inr ps
    by (auto simp: process_tickets_def save_csv_def print_def emit_def requests_append
             split: prod.splits sum.splits option.splits)
  then show ?thesis by blast
qed

lemma lc_loop_body_calls:
  "\<exists>inputs. chain_calls (events (snd (lc_loop_body rt cols row response results w)))
              = chain_calls (events w) @ map (Pair lc_chain) inputs"
proof (cases "row_get rt cols row ''support_ticket_text''")
  case (Inl e)
  then have "chain_calls (events (snd (lc_loop_body rt cols row response results w)))
               = chain_calls (events w) @ map (Pair lc_chain) []"
    by (simp add: lc_loop_body_def)
  then show ?thesis by blast
next
  case (Inr cell)
  then have "chain_calls (events (snd (lc_loop_body rt cols row response results w)))
               = chain_calls (events w) @ map (Pair lc_chain) [PDict [(''ticket_text'', cell)]]"
    by (auto simp: lc_loop_body_def lc_run_def lc_handle_def print_def emit_def chain_calls_append
                   raise_op_def
             split: prod.splits sum.splits option.splits)
  then show ?thesis by blast
qed

lemma lc_loop_calls:
  "\<exists>inputs. chain_calls (events (snd (lc_loop rt cols table response results w)))
              = chain_calls (events w) @ map (Pair lc_chain) inputs"
proof (induction table arbitrary: response results w)
  case Nil
  have "chain_calls (events (snd (lc_loop rt cols [] response results w)))
          = chain_calls (events w) @ map (Pair lc_chain) []"
    by simp
  then show ?case by blast
next
  case (Cons row later)
  obtain r w' where step: "lc_loop_body rt cols row response results w = (r, w')"
    by (cases "lc_loop_body rt cols row response results w")
  obtain ps where ps: "chain_calls (events w') = chain_calls (events w) @ map (Pair lc_chain) ps"
    using lc_loop_body_calls[of rt cols row response results w] step by auto
  show ?case
  proof (cases r)
    case (Inl e)
    then show ?thesis using step ps by auto
  next
    case (Inr st)
    obtain response' results' where st: "st = (response', results')"
      by (cases st)
    obtain qs where "chain_calls (events (snd (lc_loop rt cols later response' results' w')))
                       = chain_calls (events w') @ map (Pair lc_chain) qs"
      using Cons.IH by blast
    then have "chain_calls (events (snd (lc_loop rt cols (row # later) response results w)))
                 = chain_calls (events w) @ map (Pair lc_chain) (ps @ qs)"
      using step Inr st ps by simp
    then show ?thesis by blast
  qed
qed

lemma lc_main_calls:
  "\<exists>inputs. chain_calls (events (snd (lc_main rt w)))
              = chain_calls (events w) @ map (Pair lc_chain) inputs"
proof (cases "read_csv rt lc_file_path")
  case (Inl e)
  then have "chain_calls (events (snd (lc_main rt w)))
               = chain_calls (events w) @ map (Pair lc_chain) []"
    by (simp add: lc_main_def)
  then show ?thesis by blast
next
  case (Inr df)
  obtain ps where ps:
    "chain_calls (events (snd (lc_loop rt (columns df) (rows df) None [] w)))
       = chain_calls (events w) @ map (Pair lc_chain) ps"
    using lc_loop_calls by blast
  have "chain_calls (events (snd (lc_main rt w)))
          = chain_calls (events w) @ map (Pair lc_chain) ps
        \<or> chain_calls (events (snd (lc_main rt w)))
          = chain_calls (events w) @ map (Pair lc_chain) []"
    using Inr ps
    by (auto simp: lc_main_def lc_save_def emit_def chain_calls_append
             split: prod.splits sum.splits option.splits)
  then show ?thesis by blast
qed

section \<open>The rows of a run that finishes\<close>

lemma make_row_id:
  "make_row rt cols row ai_response = Inr r
     \<Longrightarrow> row_get rt cols row ''support_tick_id'' = Inr (support_tick_id r)"
  by (auto simp: make_row_def error_row_def success_row_def split: sum.splits if_splits)

lemma loop_body_id:
  "loop_body rt verbose cols row w = (Inr r, w')
     \<Longrightarrow> row_get rt cols row ''support_tick_id'' = Inr (support_tick_id r)"
  by (auto simp: loop_body_def split: sum.splits prod.splits dest: make_row_id)

lemma ticket_loop_rows:
  "ticket_loop rt verbose cols table generated_data w = (Inr out, w')
     \<Longrightarrow> \<exists>new. out = generated_data @ new
              \<and> list_all2 (\<lambda>row r. row_get rt cols row ''support_tick_id'' = Inr (support_tick_id r))
                   table new"
proof (induction table arbitrary: generated_data w)
  case Nil
  then show ?case by simp
next
  case (Cons row later)
  obtain r w1 where step: "loop_body rt verbose cols row w = (Inr r, w1)"
    and rest: "ticket_loop rt verbose cols later (generated_data @ [r]) w1 = (Inr out, w')"
    using Cons.prems by (auto split: prod.splits sum.splits)
  obtain new where new: "out = (generated_data @ [r]) @ new"
    and ids: "list_all2 (\<lambda>row r. row_get rt cols row ''support_tick_id'' = Inr (support_tick_id r))
                later new"
    using Cons.IH[OF rest] by blast
  have "out = generated_data @ (r # new)"
    using new by simp
  moreover have "list_all2 (\<lambda>row r. row_get rt cols row ''support_tick_id'' = Inr (support_tick_id r))
                   (row # later) (r # new)"
    using ids loop_body_id[OF step] by simp
  ultimately show ?case by blast
qed

section \<open>The claims\<close>

text \<open>
  C6. For every ticket text, the prompt \<^verbatim>\<open>template.format(ticket_text=...)\<close> renders is the
  instruction text before the ticket, the ticket text itself, and the instruction text after
  it: the ticket is a literal substring of the prompt, and the template is that same
  instruction text, written as a format string (braces doubled), around the one replacement
  field. The result is a function of the ticket text alone: it depends neither on the
  runtime nor on the state of the outside world, which rendering does not touch.
\<close>

theorem prompt_is_template_around_ticket:
  "str_format rt [(''ticket_text'', PStr ticket_text)] template
     = Inr (prompt_before @ ticket_text @ prompt_after)
   \<and> sublist ticket_text (prompt_before @ ticket_text @ prompt_after)
   \<and> template = escape_braces prompt_before @ ''{ticket_text}'' @ escape_braces prompt_after"
proof -
  have "str_format rt [(''ticket_text'', PStr ticket_text)] template
          = Inr (prompt_before @ ticket_text @ prompt_after)"
    by (simp add: render_template prompt_for_def)
  moreover have "sublist ticket_text (prompt_before @ ticket_text @ prompt_after)"
    by simp
  ultimately show ?thesis
    using template_escapes_prompt by simp
qed





text \<open>
  C8. When the table read from the input file lacks the column \<^verbatim>\<open>support_tick_id\<close> or the
  column \<^verbatim>\<open>support_ticket_text\<close>, the run stops before the loop. \<^verbatim>\<open>process_tickets\<close> prints
  the error message and returns: nothing is sent to the endpoint, nothing is saved, the
  outside world is as it was. The LangChain script raises \<^verbatim>\<open>ValueError\<close> with its
  message and leaves everything as it was.
\<close>

theorem missing_columns_stop_the_run:
  assumes "''support_tick_id'' \<notin> set (columns df) \<or> ''support_ticket_text'' \<notin> set (columns df)"
  shows "(read_csv rt input_csv = Inr df \<longrightarrow>
            process_tickets rt input_csv output_csv verbose w
              = (Inr (), w\<lparr>events := events w @ [Printed missing_columns_message]\<rparr>)
          \<and> requests (events (snd (process_tickets rt input_csv output_csv verbose w)))
              = requests (events w)
          \<and> filter is_saved (events (snd (process_tickets rt input_csv output_csv verbose w)))
              = filter is_saved (events w)
          \<and> remote (snd (process_tickets rt input_csv output_csv verbose w)) = remote w)
       \<and> (read_csv rt lc_file_path = Inr df \<longrightarrow>
            lc_main rt w = (Inl lc_missing_columns, w))"
  using assms
  by (auto simp: process_tickets_def lc_main_def print_def emit_def requests_append)

theorem missing_columns_stop_the_run_witness:
  "''support_ticket_text'' \<notin> set (columns no_text_csv)
   \<and> read_csv fake_rt ''no_text.csv'' = Inr no_text_csv
   \<and> process_tickets fake_rt ''no_text.csv'' ''out.csv'' False (fresh [Inr (envelope_text full_json)])
        = (Inr (), \<lparr>events = [Printed missing_columns_message],
                     remote = [Inr (envelope_text full_json)]\<rparr>)
   \<and> read_csv fake_rt lc_file_path = Inr no_text_csv
   \<and> lc_main fake_rt (fresh [Inr full_json])
        = (Inl lc_missing_columns, \<lparr>events = [], remote = [Inr full_json]\<rparr>)"
proof -
  have a: "''support_tick_id'' \<notin> set (columns no_text_csv)
             \<or> ''support_ticket_text'' \<notin> set (columns no_text_csv)"
    by (simp add: no_text_csv_def)
  have b: "read_csv fake_rt ''no_text.csv'' = Inr no_text_csv"
    and c: "read_csv fake_rt lc_file_path = Inr no_text_csv"
    by (simp_all add: fake_rt_fields fake_read_csv_def lc_file_path_def)
  have a': "''support_ticket_text'' \<notin> set (columns no_text_csv)"
    by (simp add: no_text_csv_def)
  show ?thesis
    using a' b c
      missing_columns_stop_the_run[OF a, of fake_rt "''no_text.csv''" "''out.csv''" False
        "fresh [Inr (envelope_text full_json)]"]
      missing_columns_stop_the_run[OF a, of fake_rt "''no_text.csv''" "''out.csv''" False
        "fresh [Inr full_json]"]
    by (simp add: fresh_def)
qed




text \<open>
  C9, as the code has it. A completion that is valid JSON with fields absent can give the very
  row an undecodable completion gives: the object below has none of the six fields, only
  the key \<^verbatim>\<open>error\<close> with the text \<^verbatim>\<open>send_prompt\<close> uses for a decoding failure, and its row
  equals, field by field, the row of the completion \<^verbatim>\<open>not json\<close>.
\<close>

theorem echoed_error_equals_parse_failure:
  "json_loads fake_rt not_json = Inl (Exc JSONDecodeError ''Expecting value: line 1 column 1 (char 0)'')
   \<and> json_loads fake_rt echo_json
        = Inr (PDict [(''error'', PStr ''Error decoding the model's JSON response.'')])
   \<and> fst (loop_body fake_rt False ticket_columns first_row (fresh [Inr (envelope_text not_json)]))
        = Inr \<lparr>support_tick_id = PStr ''T1'', category = PStr ''Error'', tags = PStr ''Error'',
               priority = PStr ''Error'', suggested_eta = PStr ''Error'',
               generated_reply = PStr ''Error decoding the model's JSON response.'',
               sentiment = PStr ''Error''\<rparr>
   \<and> fst (loop_body fake_rt False ticket_columns first_row (fresh [Inr (envelope_text echo_json)]))
        = fst (loop_body fake_rt False ticket_columns first_row (fresh [Inr (envelope_text not_json)]))"
proof -
  let ?p = "prompt_for fake_rt (PStr ''My laptop won't boot'')"
  let ?d = "PDict [(''error'', PStr ''Error decoding the model's JSON response.'')]"
  have d1: "delivered fake_rt ?p (fresh [Inr (envelope_text not_json)]) = Inr (Some (PStr not_json))"
    and d2: "delivered fake_rt ?p (fresh [Inr (envelope_text echo_json)]) = Inr (Some (PStr echo_json))"
    by (simp_all add: fake_delivered fake_loads_envelopes)
  have "fst (send_prompt fake_rt ?p False (fresh [Inr (envelope_text not_json)])) = Inr ?d"
    by (simp add: send_prompt_output[OF d1] fake_rt_fields fake_loads_completions
                  decode_error_response_def)
  then have r1: "fst (loop_body fake_rt False ticket_columns first_row
                        (fresh [Inr (envelope_text not_json)]))
                   = make_row fake_rt ticket_columns first_row ?d"
    by (rule loop_body_row[OF first_row_cells(1)])
  have "fst (send_prompt fake_rt ?p False (fresh [Inr (envelope_text echo_json)])) = Inr ?d"
    by (simp add: send_prompt_output[OF d2] fake_rt_fields fake_loads_completions)
  then have r2: "fst (loop_body fake_rt False ticket_columns first_row
                        (fresh [Inr (envelope_text echo_json)]))
                   = make_row fake_rt ticket_columns first_row ?d"
    by (rule loop_body_row[OF first_row_cells(1)])
  show ?thesis
    by (simp add: r1 r2 make_row_error first_row_cells error_sentinel_def fake_rt_fields
                  fake_loads_completions)
qed

text \<open>
  C9, amended. The row of a completion that \<^verbatim>\<open>json.loads\<close> rejects with \<^verbatim>\<open>JSONDecodeError\<close>
  and the row of a completion that parses to a JSON object without the key \<^verbatim>\<open>error\<close> and
  with at least one of the six fields absent are never equal in all six fields: the first
  has \<^verbatim>\<open>Error\<close> in five fields and the decoding message as reply, the second has the
  default of its absent field. The statement is over what the codec rejects: a text that
  is not JSON but that Python's \<^verbatim>\<open>json.loads\<close> accepts (\<^verbatim>\<open>NaN\<close>, \<^verbatim>\<open>Infinity\<close>, \<^verbatim>\<open>-Infinity\<close>,
  or an object holding one) is handled as the value it parses to.
\<close>

theorem defaults_differ_from_parse_failure:
  assumes "row_get rt cols row1 ''support_ticket_text'' = Inr text1"
    and "row_get rt cols row1 ''support_tick_id'' = Inr id1"
    and "delivered rt (prompt_for rt text1) w1 = Inr (Some (PStr malformed))"
    and "json_loads rt malformed = Inl (Exc JSONDecodeError m)"
    and "row_get rt cols row2 ''support_ticket_text'' = Inr text2"
    and "row_get rt cols row2 ''support_tick_id'' = Inr id2"
    and "delivered rt (prompt_for rt text2) w2 = Inr (Some (PStr partial))"
    and "json_loads rt partial = Inr (PDict kvs)"
    and "map_of kvs ''error'' = None"
    and "map_of kvs ''category'' = None \<or> map_of kvs ''tags'' = None
         \<or> map_of kvs ''priority'' = None \<or> map_of kvs ''suggested_eta'' = None
         \<or> map_of kvs ''generated_reply'' = None \<or> map_of kvs ''sentiment'' = None"
    and "fst (loop_body rt verbose cols row2 w2) = Inr r2"
  shows "\<exists>r1. fst (loop_body rt verbose cols row1 w1) = Inr r1
           \<and> r1 = \<lparr>support_tick_id = id1, category = PStr ''Error'', tags = PStr ''Error'',
                    priority = PStr ''Error'', suggested_eta = PStr ''Error'',
                    generated_reply = PStr ''Error decoding the model's JSON response.'',
                    sentiment = PStr ''Error''\<rparr>
           \<and> \<not> (category r1 = category r2 \<and> tags r1 = tags r2 \<and> priority r1 = priority r2
                 \<and> suggested_eta r1 = suggested_eta r2
                 \<and> generated_reply r1 = generated_reply r2 \<and> sentiment r1 = sentiment r2)"
proof -
  let ?d = "PDict [(''error'', PStr ''Error decoding the model's JSON response.'')]"
  have "fst (send_prompt rt (prompt_for rt text1) verbose w1) = Inr ?d"
    using assms(3,4) by (simp add: send_prompt_output decode_error_response_def)
  then have "fst (loop_body rt verbose cols row1 w1) = make_row rt cols row1 ?d"
    using assms(1) by (rule loop_body_row[rotated])
  then have r1: "fst (loop_body rt verbose cols row1 w1)
                   = Inr (error_sentinel id1 (PStr ''Error decoding the model's JSON response.''))"
    using assms(2) by (simp add: make_row_error)
  have "fst (send_prompt rt (prompt_for rt text2) verbose w2) = Inr (PDict kvs)"
    using assms(7,8) by (simp add: send_prompt_output)
  then have "fst (loop_body rt verbose cols row2 w2) = make_row rt cols row2 (PDict kvs)"
    using assms(5) by (rule loop_body_row[rotated])
  then have r2: "success_row rt id2 (PDict kvs) = Inr r2"
    using assms(6,9,11) by (simp add: make_row_success)
  obtain joined where j: "py_join rt '', '' (case map_of kvs ''tags'' of Some x \<Rightarrow> x | None \<Rightarrow> PList [])
                             = Inr joined"
    and cat: "category r2 = (case map_of kvs ''category'' of Some x \<Rightarrow> x | None \<Rightarrow> PStr ''Unknown'')"
    and tgs: "tags r2 = PStr joined"
    and pri: "priority r2 = (case map_of kvs ''priority'' of Some x \<Rightarrow> x | None \<Rightarrow> PStr ''Unknown'')"
    and eta: "suggested_eta r2
                = (case map_of kvs ''suggested_eta'' of Some x \<Rightarrow> x | None \<Rightarrow> PStr ''Unknown'')"
    and rep: "generated_reply r2
                = (case map_of kvs ''generated_reply'' of
                     Some x \<Rightarrow> x | None \<Rightarrow> PStr ''No reply generated'')"
    and sen: "sentiment r2 = (case map_of kvs ''sentiment'' of Some x \<Rightarrow> x | None \<Rightarrow> PStr ''Unknown'')"
    using r2 by (auto simp: success_row_def split: sum.splits)
  have differ: "\<not> (PStr ''Error'' = category r2 \<and> PStr ''Error'' = tags r2
                    \<and> PStr ''Error'' = priority r2 \<and> PStr ''Error'' = suggested_eta r2
                    \<and> PStr ''Error decoding the model's JSON response.'' = generated_reply r2
                    \<and> PStr ''Error'' = sentiment r2)"
  proof -
    consider "map_of kvs ''category'' = None" | "map_of kvs ''tags'' = None"
      | "map_of kvs ''priority'' = None" | "map_of kvs ''suggested_eta'' = None"
      | "map_of kvs ''generated_reply'' = None" | "map_of kvs ''sentiment'' = None"
      using assms(10) by auto
    then show ?thesis
    proof cases
      case 1
      then show ?thesis by (simp add: cat)
    next
      case 2
      with j have "joined = []" by simp
      then show ?thesis by (simp add: tgs)
    next
      case 3
      then show ?thesis by (simp add: pri)
    next
      case 4
      then show ?thesis by (simp add: eta)
    next
      case 5
      then show ?thesis by (simp add: rep)
    next
      case 6
      then show ?thesis by (simp add: sen)
    qed
  qed
  show ?thesis
    using r1 differ by (simp add: error_sentinel_def)
qed

theorem defaults_differ_from_parse_failure_witness:
  "delivered fake_rt (prompt_for fake_rt (PStr ''My laptop won't boot''))
        (fresh [Inr (envelope_text not_json)]) = Inr (Some (PStr not_json))
   \<and> json_loads fake_rt not_json
        = Inl (Exc JSONDecodeError ''Expecting value: line 1 column 1 (char 0)'')
   \<and> delivered fake_rt (prompt_for fake_rt (PStr ''Please refund my order''))
        (fresh [Inr (envelope_text no_tags_json)]) = Inr (Some (PStr no_tags_json))
   \<and> fst (loop_body fake_rt False ticket_columns second_row (fresh [Inr (envelope_text no_tags_json)]))
        = Inr \<lparr>support_tick_id = PStr ''T2'', category = PStr ''hardware issues'', tags = PStr [],
               priority = PStr ''high'', suggested_eta = PStr ''2 hours'',
               generated_reply = PStr ''We're sorry...'', sentiment = PStr ''negative''\<rparr>
   \<and> fst (loop_body fake_rt False ticket_columns first_row (fresh [Inr (envelope_text not_json)]))
        = Inr \<lparr>support_tick_id = PStr ''T1'', category = PStr ''Error'', tags = PStr ''Error'',
               priority = PStr ''Error'', suggested_eta = PStr ''Error'',
               generated_reply = PStr ''Error decoding the model's JSON response.'',
               sentiment = PStr ''Error''\<rparr>"
proof -
  let ?kvs = "[(''category'', PStr ''hardware issues''),
               (''priority'', PStr ''high''), (''suggested_eta'', PStr ''2 hours''),
               (''generated_reply'', PStr ''We're sorry...''), (''sentiment'', PStr ''negative'')]"
  let ?r2 = "\<lparr>support_tick_id = PStr ''T2'', category = PStr ''hardware issues'', tags = PStr [],
               priority = PStr ''high'', suggested_eta = PStr ''2 hours'',
               generated_reply = PStr ''We're sorry...'', sentiment = PStr ''negative''\<rparr>"
  have a1: "row_get fake_rt ticket_columns first_row ''support_ticket_text''
              = Inr (PStr ''My laptop won't boot'')"
    and b1: "row_get fake_rt ticket_columns first_row ''support_tick_id'' = Inr (PStr ''T1'')"
    by (simp_all add: first_row_cells)
  have a2: "row_get fake_rt ticket_columns second_row ''support_ticket_text''
              = Inr (PStr ''Please refund my order'')"
    and b2: "row_get fake_rt ticket_columns second_row ''support_tick_id'' = Inr (PStr ''T2'')"
    by (simp_all add: second_row_cells)
  have c1: "delivered fake_rt (prompt_for fake_rt (PStr ''My laptop won't boot''))
              (fresh [Inr (envelope_text not_json)]) = Inr (Some (PStr not_json))"
    and c2: "delivered fake_rt (prompt_for fake_rt (PStr ''Please refund my order''))
              (fresh [Inr (envelope_text no_tags_json)]) = Inr (Some (PStr no_tags_json))"
    by (simp_all add: fake_delivered fake_loads_envelopes)
  have d1: "json_loads fake_rt not_json
              = Inl (Exc JSONDecodeError ''Expecting value: line 1 column 1 (char 0)'')"
    and d2: "json_loads fake_rt no_tags_json = Inr (PDict ?kvs)"
    by (simp_all add: fake_rt_fields fake_loads_completions fake_loads_objects)
  have e: "map_of ?kvs ''error'' = None"
    by simp
  have f: "map_of ?kvs ''category'' = None \<or> map_of ?kvs ''tags'' = None
           \<or> map_of ?kvs ''priority'' = None \<or> map_of ?kvs ''suggested_eta'' = None
           \<or> map_of ?kvs ''generated_reply'' = None \<or> map_of ?kvs ''sentiment'' = None"
    by simp
  have "fst (send_prompt fake_rt (prompt_for fake_rt (PStr ''Please refund my order'')) False
               (fresh [Inr (envelope_text no_tags_json)])) = Inr (PDict ?kvs)"
    by (simp add: send_prompt_output[OF c2] d2)
  then have "fst (loop_body fake_rt False ticket_columns second_row
                    (fresh [Inr (envelope_text no_tags_json)]))
               = make_row fake_rt ticket_columns second_row (PDict ?kvs)"
    by (rule loop_body_row[OF a2])
  then have g: "fst (loop_body fake_rt False ticket_columns second_row
                       (fresh [Inr (envelope_text no_tags_json)])) = Inr ?r2"
    by (simp add: make_row_success[OF e b2] success_row_def)
  show ?thesis
    using c1 d1 c2 g
      defaults_differ_from_parse_failure[OF a1 b1 c1 d1 a2 b2 c2 d2 e f g]
    by auto
qed




text \<open>
  C7, as the code has it. The LangChain script calls the model through a chain whose
  model arguments set the temperature to 0.1 and give no top-p: here is the call it makes
  for the first ticket.
\<close>

theorem chain_call_uses_other_configuration:
  "chain_calls (events (snd (lc_loop_body fake_rt ticket_columns first_row None []
                               (fresh [Inr full_json]))))
     = [(lc_chain, PDict [(''ticket_text'', PStr ''My laptop won't boot'')])]
   \<and> map_of (model_kwargs (llm lc_chain)) ''temperature'' = Some (PFloat (Finite 0.1))
   \<and> PFloat (Finite 0.1) \<noteq> PFloat (Finite 0.0)
   \<and> map_of (model_kwargs (llm lc_chain)) ''topP'' = None
   \<and> map_of (model_kwargs (llm lc_chain)) ''maxTokenCount'' = Some (PInt 1000)"
proof -
  have "chain_calls (events (snd (lc_loop_body fake_rt ticket_columns first_row None []
                                    (fresh [Inr full_json]))))
          = [(lc_chain, PDict [(''ticket_text'', PStr ''My laptop won't boot'')])]"
    by (simp add: lc_loop_body_def lc_run_def first_row_cells fake_rt_fields serve_def fresh_def
                  fake_loads_objects emit_def
             split: prod.splits)
  then show ?thesis
    by (simp add: lc_chain_def lc_llm_def)
qed

text \<open>
  C7, amended. Every request \<^verbatim>\<open>process_tickets\<close> sends is one \<^verbatim>\<open>send_prompt\<close> builds, and its
  body is the serialised dictionary with the prompt and the fixed configuration: temperature
  0.0, top-p 1.0, at most 1000 tokens. Every call of the LangChain script goes through the
  one chain, whose model arguments are temperature 0.1 and at most 1000 tokens, with no
  top-p. In each program the configuration is the same for every ticket of a batch.
\<close>

theorem generation_configuration_is_fixed:
  "(\<exists>prompts. requests (events (snd (process_tickets rt input_csv output_csv verbose w)))
                 = requests (events w) @ map (build_request rt) prompts)
   \<and> build_request rt prompt_data
        = \<lparr>body = json_dumps rt None
                    (PDict [(''inputText'', PStr prompt_data),
                            (''textGenerationConfig'',
                             PDict [(''temperature'', PFloat (Finite 0.0)),
                                    (''topP'', PFloat (Finite 1.0)),
                                    (''maxTokenCount'', PInt 1000)])]),
           modelId = ''amazon.titan-text-premier-v1:0'',
           accept = ''application/json'',
           contentType = ''application/json''\<rparr>
   \<and> (\<exists>inputs. chain_calls (events (snd (lc_main rt w)))
                  = chain_calls (events w) @ map (Pair lc_chain) inputs)
   \<and> model_kwargs (llm lc_chain)
        = [(''temperature'', PFloat (Finite 0.1)), (''maxTokenCount'', PInt 1000)]"
proof -
  have "build_request rt prompt_data
          = \<lparr>body = json_dumps rt None
                      (PDict [(''inputText'', PStr prompt_data),
                              (''textGenerationConfig'',
                               PDict [(''temperature'', PFloat (Finite 0.0)),
                                      (''topP'', PFloat (Finite 1.0)),
                                      (''maxTokenCount'', PInt 1000)])]),
             modelId = ''amazon.titan-text-premier-v1:0'',
             accept = ''application/json'',
             contentType = ''application/json''\<rparr>"
    by (simp add: build_request_def request_payload_def text_generation_config_def)
  moreover have "model_kwargs (llm lc_chain)
                   = [(''temperature'', PFloat (Finite 0.1)), (''maxTokenCount'', PInt 1000)]"
    by (simp add: lc_chain_def lc_llm_def)
  ultimately show ?thesis
    using process_tickets_requests[of rt input_csv output_csv verbose w] lc_main_calls[of rt w]
    by blast
qed

theorem generation_configuration_is_fixed_witness:
  "process_tickets fake_rt ''tickets.csv'' ''out.csv'' False (fresh [Inr (envelope_text full_json)])
     = (Inr (),
        \<lparr>events =
           [Invoked (build_request fake_rt (prompt_for fake_rt (PStr ''My laptop won't boot''))),
            Invoked (build_request fake_rt (prompt_for fake_rt (PStr ''Please refund my order''))),
            Saved ''out.csv''
              [\<lparr>support_tick_id = PStr ''T1'', category = PStr ''hardware issues'',
                 tags = PStr ''boot failure'', priority = PStr ''high'',
                 suggested_eta = PStr ''2 hours'', generated_reply = PStr ''We're sorry...'',
                 sentiment = PStr ''negative''\<rparr>,
               \<lparr>support_tick_id = PStr ''T2'', category = PStr ''Error'', tags = PStr ''Error'',
                 priority = PStr ''Error'', suggested_eta = PStr ''Error'',
                 generated_reply = PStr ''Error occurred: timeout'', sentiment = PStr ''Error''\<rparr>],
            Printed ''Processed data saved to out.csv''],
         remote = []\<rparr>)
   \<and> (\<exists>prompts. requests (events (snd (process_tickets fake_rt ''tickets.csv'' ''out.csv'' False
                                          (fresh [Inr (envelope_text full_json)]))))
                   = requests (events (fresh [Inr (envelope_text full_json)]))
                     @ map (build_request fake_rt) prompts)"
proof -
  let ?w = "fresh [Inr (envelope_text full_json)]"
  let ?p1 = "prompt_for fake_rt (PStr ''My laptop won't boot'')"
  let ?p2 = "prompt_for fake_rt (PStr ''Please refund my order'')"
  let ?w1 = "\<lparr>events = [Invoked (build_request fake_rt ?p1)],
              remote = [] :: (pyexc + string) list\<rparr>"
  let ?w2 = "\<lparr>events = [Invoked (build_request fake_rt ?p1), Invoked (build_request fake_rt ?p2)],
              remote = [] :: (pyexc + string) list\<rparr>"
  let ?d = "PDict [(''category'', PStr ''hardware issues''), (''tags'', PList [PStr ''boot failure'']),
                   (''priority'', PStr ''high''), (''suggested_eta'', PStr ''2 hours''),
                   (''generated_reply'', PStr ''We're sorry...''), (''sentiment'', PStr ''negative'')]"
  let ?r1 = "\<lparr>support_tick_id = PStr ''T1'', category = PStr ''hardware issues'',
               tags = PStr ''boot failure'', priority = PStr ''high'',
               suggested_eta = PStr ''2 hours'', generated_reply = PStr ''We're sorry...'',
               sentiment = PStr ''negative''\<rparr>"
  let ?r2 = "\<lparr>support_tick_id = PStr ''T2'', category = PStr ''Error'', tags = PStr ''Error'',
               priority = PStr ''Error'', suggested_eta = PStr ''Error'',
               generated_reply = PStr ''Error occurred: timeout'', sentiment = PStr ''Error''\<rparr>"
  have df: "fake_read_csv ''tickets.csv'' = Inr tickets_csv"
    by (simp add: fake_read_csv_def)
  have cols: "columns tickets_csv = ticket_columns" "rows tickets_csv = [first_row, second_row]"
    by (simp_all add: tickets_csv_def)
  have present: "\<not> (''support_tick_id'' \<notin> set ticket_columns
                     \<or> ''support_ticket_text'' \<notin> set ticket_columns)"
    by (simp add: ticket_columns_def)
  have sent1: "send_prompt fake_rt ?p1 False ?w = (Inr ?d, ?w1)"
    by (simp add: send_prompt_def try_block_def call_endpoint_def fake_rt_fields serve_def
                  fresh_def emit_def fake_loads_envelopes extract_output_envelope
                  parse_output_def fake_loads_objects)
  have step1: "loop_body fake_rt False ticket_columns first_row ?w = (Inr ?r1, ?w1)"
    by (simp add: loop_body_unfold[OF first_row_cells(1)] sent1 make_row_def first_row_cells
                  success_row_def)
  have sent2: "send_prompt fake_rt ?p2 False ?w1
                 = (Inr (PDict [(''error'', PStr ''Error occurred: timeout'')]), ?w2)"
    by (simp add: send_prompt_def try_block_def call_endpoint_def fake_rt_fields serve_def
                  emit_def exception_response_def)
  have step2: "loop_body fake_rt False ticket_columns second_row ?w1 = (Inr ?r2, ?w2)"
    by (simp add: loop_body_unfold[OF second_row_cells(1)] sent2 make_row_def second_row_cells
                  error_row_def)
  have run: "process_tickets fake_rt ''tickets.csv'' ''out.csv'' False ?w
               = (Inr (),
                  \<lparr>events = [Invoked (build_request fake_rt ?p1), Invoked (build_request fake_rt ?p2),
                             Saved ''out.csv'' [?r1, ?r2],
                             Printed ''Processed data saved to out.csv''],
                   remote = []\<rparr>)"
    using present
    by (simp add: process_tickets_def df cols step1 step2 save_csv_def fake_rt_fields
                  print_def emit_def)
  show ?thesis
    using run generation_configuration_is_fixed[of fake_rt "''tickets.csv''" "''out.csv''" False ?w]
    by simp
qed

text \<open>
  C1, on the code. A batch of two tickets whose first completion is the JSON object
  \<^verbatim>\<open>{"category": "billing", "tags": null}\<close>: joining the tags raises \<^verbatim>\<open>TypeError\<close> inside
  the loop, outside any \<^verbatim>\<open>try\<close>. \<^verbatim>\<open>process_tickets\<close> ends with that exception after one
  request: the second ticket is never sent (its canned answer is still queued) and no
  table is saved, so the two tickets give no row at all.
\<close>

theorem batch_aborts_on_unjoinable_tags:
  "json_loads fake_rt null_tags_json
     = Inr (PDict [(''category'', PStr ''billing''), (''tags'', PNone)])
   \<and> rows tickets_csv = [first_row, second_row]
   \<and> fst (process_tickets fake_rt ''tickets.csv'' ''out.csv'' False
             (fresh [Inr (envelope_text null_tags_json), Inr (envelope_text full_json)]))
        = Inl (Exc TypeError ''(message)'')
   \<and> length (requests (events (snd (process_tickets fake_rt ''tickets.csv'' ''out.csv'' False
             (fresh [Inr (envelope_text null_tags_json), Inr (envelope_text full_json)]))))) = 1
   \<and> filter is_saved (events (snd (process_tickets fake_rt ''tickets.csv'' ''out.csv'' False
             (fresh [Inr (envelope_text null_tags_json), Inr (envelope_text full_json)])))) = []
   \<and> remote (snd (process_tickets fake_rt ''tickets.csv'' ''out.csv'' False
             (fresh [Inr (envelope_text null_tags_json), Inr (envelope_text full_json)])))
        = [Inr (envelope_text full_json)]"
proof -
  let ?w = "fresh [Inr (envelope_text null_tags_json), Inr (envelope_text full_json)]"
  let ?p = "prompt_for fake_rt (PStr ''My laptop won't boot'')"
  let ?d = "PDict [(''category'', PStr ''billing''), (''tags'', PNone)]"
  have df: "read_csv fake_rt ''tickets.csv'' = Inr tickets_csv"
    by (simp add: fake_rt_fields fake_read_csv_def)
  have cols: "columns tickets_csv = ticket_columns" "rows tickets_csv = [first_row, second_row]"
    by (simp_all add: tickets_csv_def)
  have present: "\<not> (''support_tick_id'' \<notin> set ticket_columns
                     \<or> ''support_ticket_text'' \<notin> set ticket_columns)"
    by (simp add: ticket_columns_def)
  have sent: "send_prompt fake_rt ?p False ?w
                = (Inr ?d,
                   \<lparr>events = [Invoked (build_request fake_rt ?p)],
                    remote = [Inr (envelope_text full_json)]\<rparr>)"
    by (simp add: send_prompt_def try_block_def call_endpoint_def fake_rt_fields serve_def
                  fresh_def emit_def fake_loads_envelopes extract_output_envelope
                  parse_output_def fake_loads_completions)
  have step: "loop_body fake_rt False ticket_columns first_row ?w
                = (Inl (Exc TypeError ''(message)''),
                   \<lparr>events = [Invoked (build_request fake_rt ?p)],
                    remote = [Inr (envelope_text full_json)]\<rparr>)"
    by (simp add: loop_body_unfold[OF first_row_cells(1)] sent make_row_def first_row_cells
                  success_row_def raise_op_def fake_rt_fields)
  have run: "process_tickets fake_rt ''tickets.csv'' ''out.csv'' False ?w
               = (Inl (Exc TypeError ''(message)''),
                  \<lparr>events = [Invoked (build_request fake_rt ?p)],
                   remote = [Inr (envelope_text full_json)]\<rparr>)"
    using present by (simp add: process_tickets_def df cols step)
  show ?thesis
    by (simp add: run cols fake_rt_fields fake_loads_completions)
qed

text \<open>
  The run above is one that passes the test of the columns: the table read from
  \<^verbatim>\<open>tickets.csv\<close> has both, so the exception comes from the loop and not from the guard.
\<close>

theorem batch_aborts_on_unjoinable_tags_witness:
  "read_csv fake_rt ''tickets.csv'' = Inr tickets_csv
   \<and> ''support_tick_id'' \<in> set (columns tickets_csv)
   \<and> ''support_ticket_text'' \<in> set (columns tickets_csv)
   \<and> fst (process_tickets fake_rt ''tickets.csv'' ''out.csv'' False
             (fresh [Inr (envelope_text null_tags_json), Inr (envelope_text full_json)]))
        = Inl (Exc TypeError ''(message)'')
   \<and> filter is_saved (events (snd (process_tickets fake_rt ''tickets.csv'' ''out.csv'' False
             (fresh [Inr (envelope_text null_tags_json), Inr (envelope_text full_json)])))) = []"
  using batch_aborts_on_unjoinable_tags
  by (simp add: fake_rt_fields fake_read_csv_def tickets_csv_def ticket_columns_def)

text \<open>
  C2, on the code. Two completions that are valid JSON but not objects: for the number
  \<^verbatim>\<open>5\<close> the test \<^verbatim>\<open>'error' in ai_response\<close> raises \<^verbatim>\<open>TypeError\<close>, for the empty array
  \<^verbatim>\<open>[]\<close> the call of \<^verbatim>\<open>.get\<close> raises \<^verbatim>\<open>AttributeError\<close>. \<^verbatim>\<open>send_prompt\<close> returns the parsed
  value as it is, and the turn of the loop ends with the exception instead of a row.
\<close>

theorem non_object_completion_raises:
  "json_loads fake_rt number_json = Inr (PInt 5)
   \<and> fst (send_prompt fake_rt (prompt_for fake_rt (PStr ''My laptop won't boot'')) False
             (fresh [Inr (envelope_text number_json)])) = Inr (PInt 5)
   \<and> fst (loop_body fake_rt False ticket_columns first_row (fresh [Inr (envelope_text number_json)]))
        = Inl (Exc TypeError ''(message)'')
   \<and> json_loads fake_rt array_json = Inr (PList [])
   \<and> fst (send_prompt fake_rt (prompt_for fake_rt (PStr ''My laptop won't boot'')) False
             (fresh [Inr (envelope_text array_json)])) = Inr (PList [])
   \<and> fst (loop_body fake_rt False ticket_columns first_row (fresh [Inr (envelope_text array_json)]))
        = Inl (Exc AttributeError ''(message)'')"
proof -
  let ?p = "prompt_for fake_rt (PStr ''My laptop won't boot'')"
  have d1: "delivered fake_rt ?p (fresh [Inr (envelope_text number_json)])
              = Inr (Some (PStr number_json))"
    and d2: "delivered fake_rt ?p (fresh [Inr (envelope_text array_json)])
              = Inr (Some (PStr array_json))"
    by (simp_all add: fake_delivered fake_loads_envelopes)
  have s1: "fst (send_prompt fake_rt ?p False (fresh [Inr (envelope_text number_json)]))
              = Inr (PInt 5)"
    by (simp add: send_prompt_output[OF d1] fake_rt_fields fake_loads_completions)
  have s2: "fst (send_prompt fake_rt ?p False (fresh [Inr (envelope_text array_json)]))
              = Inr (PList [])"
    by (simp add: send_prompt_output[OF d2] fake_rt_fields fake_loads_completions)
  have r1: "fst (loop_body fake_rt False ticket_columns first_row
                   (fresh [Inr (envelope_text number_json)]))
              = make_row fake_rt ticket_columns first_row (PInt 5)"
    using s1 by (rule loop_body_row[OF first_row_cells(1)])
  have r2: "fst (loop_body fake_rt False ticket_columns first_row
                   (fresh [Inr (envelope_text array_json)]))
              = make_row fake_rt ticket_columns first_row (PList [])"
    using s2 by (rule loop_body_row[OF first_row_cells(1)])
  show ?thesis
    by (simp add: s1 s2 r1 r2 make_row_def first_row_cells success_row_def raise_op_def
                  fake_rt_fields fake_loads_completions)
qed

end
